theory Spec2Isabelle
  imports Complex_Main "HOL-Library.Char_ord" "HOL-Library.List_Lexorder"
begin

section \<open>Data model of the pathing module\<close>

text \<open>
  The module \<open>Pathing\<close> works on the game engine's objects. The engine itself, the
  prototypes the repository adds to it and the persisted \<open>Memory\<close> object are not part
  of the sources at hand; what the module reads from them is a field of the record
  \<open>Game\<close> below, what it writes is threaded through the functions as explicit state.
\<close>

datatype Terrain = wall | plain | swamp

record RoomPosition =
  pos_x :: int
  pos_y :: int
  pos_roomName :: string

definition mkRoomPosition :: "int \<Rightarrow> int \<Rightarrow> string \<Rightarrow> RoomPosition" where
  "mkRoomPosition xx yy rn = \<lparr>pos_x = xx, pos_y = yy, pos_roomName = rn\<rparr>"

text \<open>An argument of type \<open>RoomPosition | HasPos\<close>.\<close>

datatype PosLike = IsPos RoomPosition | HasPos RoomPosition

fun normalizePos :: "PosLike \<Rightarrow> RoomPosition" where
  "normalizePos (IsPos p) = p"
| "normalizePos (HasPos p) = p"

text \<open>A flag of an options object is absent (\<open>undefined\<close>), false or true.\<close>

fun truthy :: "bool option \<Rightarrow> bool" where
  "truthy None = False"
| "truthy (Some b) = b"

text \<open>One entry of \<open>_.defaults\<close>: the field is set only where it is undefined.\<close>

fun dflt :: "'a option \<Rightarrow> 'a \<Rightarrow> 'a option" where
  "dflt None d = Some d"
| "dflt (Some v) d = Some v"

text \<open>
  What a call does to its surroundings, in order: the lines it logs (the fixed part of
  the text of each line) and its calls of the \<open>PathFinder.search\<close> oracle.
\<close>

datatype Effect = LogWarning string | LogAlert string | LogError string | PathFinderSearch

datatype RoomType = ROOMTYPE_SOURCEKEEPER | ROOMTYPE_CORE | ROOMTYPE_CONTROLLER | ROOMTYPE_ALLEY

record RoomMemory =
  avoid :: "bool option"

subsection \<open>Cost matrices\<close>

text \<open>
  Modelled from the spec: the engine's \<open>PathFinder.CostMatrix\<close> (not in the sources) is
  "a dense grid of byte costs over a region's coordinate space, one entry per tile" of
  the 50 x 50 region, "clamped". \<open>bits_set\<close> stores a value clamped to 0..255 at a tile
  of the grid and \<open>bits_get\<close> reads it. What the engine does with a coordinate outside
  the grid is said by neither the sources nor the spec: here such a coordinate addresses
  no entry (nothing is stored, the read is undefined), and an engine that keeps the grid
  in one array, column after column, would wrap a row index outside 0..49 into a
  neighbouring column instead. The costs written by \<open>getKitingMatrix\<close>, which passes the
  coordinates around a creep unchecked, are therefore stated below only for creeps at
  least 3 rows from the top and the bottom edge, where every row index it passes is in
  range.
\<close>

type_synonym CostMatrixBits = "int \<times> int \<Rightarrow> nat"

definition inGrid :: "int \<Rightarrow> int \<Rightarrow> bool" where
  "inGrid xx yy = (0 \<le> xx \<and> xx \<le> 49 \<and> 0 \<le> yy \<and> yy \<le> 49)"

definition clampByte :: "int \<Rightarrow> nat" where
  "clampByte v = nat (min (max 0 v) 255)"

definition bits_new :: CostMatrixBits where
  "bits_new = (\<lambda>t. 0)"

definition bits_set :: "CostMatrixBits \<Rightarrow> int \<Rightarrow> int \<Rightarrow> int \<Rightarrow> CostMatrixBits" where
  "bits_set m xx yy v = (if inGrid xx yy then m((xx, yy) := clampByte v) else m)"

definition bits_get :: "CostMatrixBits \<Rightarrow> int \<Rightarrow> int \<Rightarrow> nat option" where
  "bits_get m xx yy = (if inGrid xx yy then Some (m (xx, yy)) else None)"

subsection \<open>Rooms\<close>

record Structure =
  s_pos :: RoomPosition
  structureType :: string
  s_isWalkable :: bool

definition STRUCTURE_ROAD :: string where
  "STRUCTURE_ROAD = ''road''"

record ConstructionSite =
  site_pos :: RoomPosition
  site_my :: bool
  site_isWalkable :: bool

record Creep =
  c_pos :: RoomPosition
  attackParts :: nat
  rangedAttackParts :: nat

text \<open>
  A matrix is a mutable object: a room's cache slots hold references into the store of
  matrices (an index of the list), so that sharing between a cache slot and a returned
  matrix is visible.
\<close>

type_synonym ref = nat
type_synonym MatrixStore = "CostMatrixBits list"

record Room =
  room_name :: string
  find_structures :: "Structure list"
  find_construction_sites :: "ConstructionSite list"
  find_creeps :: "Creep list"
  hostiles :: "Creep list"
  keeperLairs :: "RoomPosition list"
  defaultMatrix_slot :: "ref option"
  directMatrix_slot :: "ref option"
  creepMatrix_slot :: "ref option"
  kitingMatrix_slot :: "ref option"
  skMatrix_slot :: "ref option"

subsection \<open>Options, oracles and the game\<close>

record TerrainCosts =
  plainCost :: nat
  swampCost :: nat

datatype CallbackResult = Matrix CostMatrixBits | Flag bool

record MoveOptions =
  ignoreCreeps :: "bool option"
  maxOps :: "nat option"
  opt_range :: "int option"
  terrainCosts :: "TerrainCosts option"
  movingTarget :: "bool option"
  route :: "(string \<rightharpoonup> bool) option"
  useFindRoute :: "bool option"
  direct :: "bool option"
  maxRooms :: "nat option"
  ensurePath :: "bool option"
  allowHostile :: "bool option"
  modifyRoomCallback :: "(Room \<Rightarrow> CostMatrixBits \<Rightarrow> CallbackResult) option"
  obstacles :: "RoomPosition option list"
  avoidSK :: "bool option"
  ignoreStructures :: "bool option"
  restrictDistance :: "int option"
  preferHighway :: "bool option"

definition noOptions :: MoveOptions where
  "noOptions = \<lparr>ignoreCreeps = None, maxOps = None, opt_range = None, terrainCosts = None,
     movingTarget = None, route = None, useFindRoute = None, direct = None, maxRooms = None,
     ensurePath = None, allowHostile = None, modifyRoomCallback = None, obstacles = [],
     avoidSK = None, ignoreStructures = None, restrictDistance = None, preferHighway = None\<rparr>"

record PathFinderPath =
  path :: "RoomPosition list"
  incomplete :: bool

record Goal =
  goal_pos :: RoomPosition
  goal_range :: int

record SearchOpts =
  so_maxOps :: "nat option"
  so_maxRooms :: "nat option"
  so_plainCost :: nat
  so_swampCost :: nat
  so_flee :: bool
  so_roomCallback :: "string \<Rightarrow> CallbackResult"

datatype RouteCost = POSITIVE_INFINITY | Finite real

record RouteStep =
  step_exit :: nat
  step_room :: string

text \<open>
  What the module reads from its surroundings: the engine's map functions, the two
  search oracles (\<open>Game.map.findRoute\<close>, which yields an error code or the route, and
  \<open>PathFinder.search\<close>), the rooms in vision with the store of their matrices, the
  rooms' memory, \<open>Cartographer.roomType\<close> and the \<open>name\<close> of a position.
\<close>

record Game =
  getRoomLinearDistance :: "string \<Rightarrow> string \<Rightarrow> int"
  getTerrainAt :: "int \<Rightarrow> int \<Rightarrow> string \<Rightarrow> Terrain"
  map_findRoute :: "string \<Rightarrow> string \<Rightarrow> (string \<Rightarrow> RouteCost) \<Rightarrow> int + RouteStep list"
  PathFinder_search :: "RoomPosition \<Rightarrow> Goal list \<Rightarrow> SearchOpts \<Rightarrow> PathFinderPath"
  rooms :: "string \<rightharpoonup> Room"
  store :: MatrixStore
  memory_rooms :: "string \<rightharpoonup> RoomMemory"
  roomType :: "string \<Rightarrow> RoomType"
  posName :: "RoomPosition \<Rightarrow> string"

section \<open>Room avoidance\<close>

definition shouldAvoid :: "Game \<Rightarrow> string \<Rightarrow> bool" where
  "shouldAvoid g rn = (case memory_rooms g rn of None \<Rightarrow> False | Some m \<Rightarrow> truthy (avoid m))"

section \<open>Cost matrix computations\<close>

text \<open>
  The store of matrix objects. \<open>new PathFinder.CostMatrix()\<close> and \<open>clone\<close> allocate a
  fresh object, \<open>set\<close> writes through a reference. A reference is always an index below
  the length of the store (objects are never freed); \<open>wfRoom\<close> says so for the
  references a room holds.
\<close>

definition store_new :: "MatrixStore \<Rightarrow> ref \<times> MatrixStore" where
  "store_new st = (length st, st @ [bits_new])"

definition store_clone :: "MatrixStore \<Rightarrow> ref \<Rightarrow> ref \<times> MatrixStore" where
  "store_clone st r = (length st, st @ [st ! r])"

definition store_set :: "MatrixStore \<Rightarrow> ref \<Rightarrow> int \<Rightarrow> int \<Rightarrow> int \<Rightarrow> MatrixStore" where
  "store_set st r xx yy v = st[r := bits_set (st ! r) xx yy v]"

definition store_get :: "MatrixStore \<Rightarrow> ref \<Rightarrow> int \<Rightarrow> int \<Rightarrow> nat option" where
  "store_get st r xx yy = bits_get (st ! r) xx yy"

definition slotOk :: "MatrixStore \<Rightarrow> ref option \<Rightarrow> bool" where
  "slotOk st slot = (case slot of None \<Rightarrow> True | Some r \<Rightarrow> r < length st)"

definition wfRoom :: "MatrixStore \<Rightarrow> Room \<Rightarrow> bool" where
  "wfRoom st room =
     (slotOk st (defaultMatrix_slot room) \<and> slotOk st (directMatrix_slot room) \<and>
      slotOk st (creepMatrix_slot room) \<and> slotOk st (kitingMatrix_slot room) \<and>
      slotOk st (skMatrix_slot room))"

text \<open>
  \<open>getDefaultMatrix\<close>. The first \<open>forEach\<close> sets the roads and collects the impassible
  structures, the second sets those, the third sets the own construction sites.
\<close>

definition default_structure_step ::
  "ref \<Rightarrow> Structure \<Rightarrow> MatrixStore \<times> Structure list \<Rightarrow> MatrixStore \<times> Structure list" where
  "default_structure_step matrix s acc =
     (if structureType s = STRUCTURE_ROAD
        then (store_set (fst acc) matrix (pos_x (s_pos s)) (pos_y (s_pos s)) 1, snd acc)
      else if \<not> s_isWalkable s then (fst acc, snd acc @ [s])
      else acc)"

definition set_impassible :: "ref \<Rightarrow> Structure \<Rightarrow> MatrixStore \<Rightarrow> MatrixStore" where
  "set_impassible matrix s st = store_set st matrix (pos_x (s_pos s)) (pos_y (s_pos s)) 255"

definition site_step :: "ref \<Rightarrow> ConstructionSite \<Rightarrow> MatrixStore \<Rightarrow> MatrixStore" where
  "site_step matrix site st =
     (if site_my site \<and> \<not> site_isWalkable site
        then store_set st matrix (pos_x (site_pos site)) (pos_y (site_pos site)) 255
      else st)"

definition getDefaultMatrix :: "MatrixStore \<Rightarrow> Room \<Rightarrow> ref \<times> MatrixStore \<times> Room" where
  "getDefaultMatrix st room =
     (case defaultMatrix_slot room of
        Some r \<Rightarrow> (r, st, room)
      | None \<Rightarrow>
          (let new = store_new st;
               matrix = fst new;
               acc = fold (default_structure_step matrix) (find_structures room) (snd new, []);
               st2 = fold (set_impassible matrix) (snd acc) (fst acc);
               st3 = fold (site_step matrix) (find_construction_sites room) st2
           in (matrix, st3, room\<lparr>defaultMatrix_slot := Some matrix\<rparr>)))"

definition direct_structure_step :: "Structure \<Rightarrow> Structure list \<Rightarrow> Structure list" where
  "direct_structure_step s acc = (if \<not> s_isWalkable s then acc @ [s] else acc)"

definition getDirectMatrix :: "MatrixStore \<Rightarrow> Room \<Rightarrow> ref \<times> MatrixStore \<times> Room" where
  "getDirectMatrix st room =
     (case directMatrix_slot room of
        Some r \<Rightarrow> (r, st, room)
      | None \<Rightarrow>
          (let new = store_new st;
               matrix = fst new;
               impassibleStructures = fold direct_structure_step (find_structures room) [];
               st2 = fold (set_impassible matrix) impassibleStructures (snd new);
               st3 = fold (site_step matrix) (find_construction_sites room) st2
           in (matrix, st3, room\<lparr>directMatrix_slot := Some matrix\<rparr>)))"

definition creep_step :: "ref \<Rightarrow> Creep \<Rightarrow> MatrixStore \<Rightarrow> MatrixStore" where
  "creep_step matrix c st = store_set st matrix (pos_x (c_pos c)) (pos_y (c_pos c)) 255"

definition getCreepMatrix :: "MatrixStore \<Rightarrow> Room \<Rightarrow> ref \<times> MatrixStore \<times> Room" where
  "getCreepMatrix st room =
     (case creepMatrix_slot room of
        Some r \<Rightarrow> (r, st, room)
      | None \<Rightarrow>
          (let d = getDefaultMatrix st room;
               room1 = snd (snd d);
               cl = store_clone (fst (snd d)) (fst d);
               matrix = fst cl;
               st2 = fold (creep_step matrix) (find_creeps room1) (snd cl)
           in (matrix, st2, room1\<lparr>creepMatrix_slot := Some matrix\<rparr>)))"

text \<open>
  \<open>getKitingMatrix\<close>. The body of the two inner loops reads the cost, adds the penalty and
  writes the sum back, at every offset and with no test of the bounds (unlike
  \<open>setCostsInRange\<close>). Where the read is undefined the sum is not a number, which a byte
  stores as 0.
\<close>

definition kiting_cell :: "ref \<Rightarrow> Creep \<Rightarrow> int \<Rightarrow> int \<Rightarrow> MatrixStore \<Rightarrow> MatrixStore" where
  "kiting_cell matrix avoidCreep dx dy st =
     store_set st matrix (pos_x (c_pos avoidCreep) + dx) (pos_y (c_pos avoidCreep) + dy)
       (case store_get st matrix (pos_x (c_pos avoidCreep) + dx) (pos_y (c_pos avoidCreep) + dy) of
          None \<Rightarrow> 0
        | Some cost \<Rightarrow> int cost + (40 - 10 * max \<bar>dx\<bar> \<bar>dy\<bar>))"

definition kiting_creep :: "ref \<Rightarrow> Creep \<Rightarrow> MatrixStore \<Rightarrow> MatrixStore" where
  "kiting_creep matrix avoidCreep st =
     fold (\<lambda>dx. fold (\<lambda>dy. kiting_cell matrix avoidCreep dx dy) [- 3 .. 3]) [- 3 .. 3] st"

definition isCombatant :: "Creep \<Rightarrow> bool" where
  "isCombatant c = (attackParts c > 0 \<or> rangedAttackParts c > 0)"

definition getKitingMatrix :: "MatrixStore \<Rightarrow> Room \<Rightarrow> ref \<times> MatrixStore \<times> Room" where
  "getKitingMatrix st room =
     (case kitingMatrix_slot room of
        Some r \<Rightarrow> (r, st, room)
      | None \<Rightarrow>
          (let c = getCreepMatrix st room;
               room1 = snd (snd c);
               cl = store_clone (fst (snd c)) (fst c);
               matrix = fst cl;
               avoidCreeps = filter isCombatant (hostiles room1);
               st2 = fold (kiting_creep matrix) avoidCreeps (snd cl)
           in (matrix, st2, room1\<lparr>kitingMatrix_slot := Some matrix\<rparr>)))"

definition lair_cell :: "ref \<Rightarrow> RoomPosition \<Rightarrow> int \<Rightarrow> int \<Rightarrow> MatrixStore \<Rightarrow> MatrixStore" where
  "lair_cell matrix lair dx dy st = store_set st matrix (pos_x lair + dx) (pos_y lair + dy) 255"

definition lair_step :: "ref \<Rightarrow> RoomPosition \<Rightarrow> MatrixStore \<Rightarrow> MatrixStore" where
  "lair_step matrix lair st =
     fold (\<lambda>dx. fold (\<lambda>dy. lair_cell matrix lair dx dy) [- 5 .. 5]) [- 5 .. 5] st"

definition getSkMatrix :: "Game \<Rightarrow> MatrixStore \<Rightarrow> Room \<Rightarrow> ref \<times> MatrixStore \<times> Room" where
  "getSkMatrix g st room =
     (if roomType g (room_name room) \<noteq> ROOMTYPE_SOURCEKEEPER then getDefaultMatrix st room
      else case skMatrix_slot room of
        Some r \<Rightarrow> (r, st, room)
      | None \<Rightarrow>
          (let d = getDefaultMatrix st room;
               room1 = snd (snd d);
               cl = store_clone (fst (snd d)) (fst d);
               matrix = fst cl;
               st2 = fold (lair_step matrix) (keeperLairs room1) (snd cl)
           in (matrix, st2, room1\<lparr>skMatrix_slot := Some matrix\<rparr>)))"

text \<open>
  \<open>getCostMatrix\<close>: the variant chosen by the options, the caller's obstacles set on a
  clone, and a last clone when \<open>clone\<close> is set. An undefined or empty \<open>options.obstacles\<close>
  is the empty list; \<open>None\<close> in the list is a null obstacle.
\<close>

definition getCostMatrix_variant ::
  "Game \<Rightarrow> MatrixStore \<Rightarrow> Room \<Rightarrow> MoveOptions \<Rightarrow> ref \<times> MatrixStore \<times> Room" where
  "getCostMatrix_variant g st room options =
     (if ignoreCreeps options = Some False then getCreepMatrix st room
      else if truthy (avoidSK options) then getSkMatrix g st room
      else if truthy (ignoreStructures options) then (fst (store_new st), snd (store_new st), room)
      else if truthy (direct options) then getDirectMatrix st room
      else getDefaultMatrix st room)"

definition obstacle_step :: "Room \<Rightarrow> ref \<Rightarrow> RoomPosition option \<Rightarrow> MatrixStore \<Rightarrow> MatrixStore" where
  "obstacle_step room matrix obstacle st =
     (case obstacle of
        None \<Rightarrow> st
      | Some ob \<Rightarrow>
          if pos_roomName ob = room_name room then store_set st matrix (pos_x ob) (pos_y ob) 255
          else st)"

definition getCostMatrix ::
  "Game \<Rightarrow> MatrixStore \<Rightarrow> Room \<Rightarrow> MoveOptions \<Rightarrow> bool \<Rightarrow> ref \<times> MatrixStore \<times> Room" where
  "getCostMatrix g st room options clone =
     (let v = getCostMatrix_variant g st room options;
          room1 = snd (snd v);
          ob = (if obstacles options \<noteq> []
                then (let cl = store_clone (fst (snd v)) (fst v)
                      in (fst cl, fold (obstacle_step room1 (fst cl)) (obstacles options) (snd cl)))
                else (fst v, fst (snd v)));
          res = (if clone then store_clone (snd ob) (fst ob) else ob)
      in (fst res, snd res, room1))"

section \<open>findRoute\<close>

text \<open>
  The local \<open>restrictDistance\<close> of \<open>findRoute\<close>:
  \<open>options.restrictDistance || linearDistance + 10\<close>; an absent or zero option is falsy.
\<close>

definition findRoute_restrictDistance :: "Game \<Rightarrow> string \<Rightarrow> string \<Rightarrow> MoveOptions \<Rightarrow> int" where
  "findRoute_restrictDistance g origin destination options =
     (let linearDistance = getRoomLinearDistance g origin destination in
      case restrictDistance options of
        None \<Rightarrow> linearDistance + 10
      | Some d \<Rightarrow> if d \<noteq> 0 then d else linearDistance + 10)"

definition findRoute_highwayBias :: "MoveOptions \<Rightarrow> real" where
  "findRoute_highwayBias options = (if truthy (preferHighway options) then 5 / 2 else 1)"

text \<open>The \<open>routeCallback\<close> closure that \<open>findRoute\<close> hands to the route oracle.\<close>

definition routeCallback :: "Game \<Rightarrow> string \<Rightarrow> string \<Rightarrow> MoveOptions \<Rightarrow> string \<Rightarrow> RouteCost" where
  "routeCallback g origin destination options rn =
     (let rangeToRoom = getRoomLinearDistance g origin rn in
      if rangeToRoom > findRoute_restrictDistance g origin destination options
        then POSITIVE_INFINITY
      else if \<not> truthy (allowHostile options) \<and> shouldAvoid g rn
              \<and> rn \<noteq> destination \<and> rn \<noteq> origin
        then POSITIVE_INFINITY
      else if truthy (preferHighway options) \<and> roomType g rn = ROOMTYPE_ALLEY
        then Finite 1
      else Finite (findRoute_highwayBias options))"

definition findRoute ::
  "Game \<Rightarrow> string \<Rightarrow> string \<Rightarrow> MoveOptions \<Rightarrow> (string \<rightharpoonup> bool) option \<times> Effect list" where
  "findRoute g origin destination options =
     (let allowedRooms = [origin \<mapsto> True, destination \<mapsto> True];
          ret = map_findRoute g origin destination (routeCallback g origin destination options)
      in case ret of
           Inl err \<Rightarrow> (None, [LogWarning ''Movement: could not findRoute''])
         | Inr steps \<Rightarrow>
             (Some (fold (\<lambda>v allowed. allowed(step_room v \<mapsto> True)) steps allowedRooms), []))"

section \<open>findPath\<close>

definition roomCallback ::
  "Game \<Rightarrow> string \<Rightarrow> RoomPosition \<Rightarrow> RoomPosition \<Rightarrow> (string \<rightharpoonup> bool) option \<Rightarrow> MoveOptions
     \<Rightarrow> CallbackResult" where
  "roomCallback g rn origin destination allowedRooms options =
     (if (case allowedRooms of None \<Rightarrow> False | Some allowed \<Rightarrow> allowed rn \<noteq> Some True)
        then Flag False
      else if \<not> truthy (allowHostile options) \<and> shouldAvoid g rn
              \<and> rn \<noteq> pos_roomName origin \<and> rn \<noteq> pos_roomName destination
        then Flag False
      else case rooms g rn of
        Some room \<Rightarrow>
          (let m = getCostMatrix g (store g) room options False;
               matrix = fst (snd m) ! fst m
           in case modifyRoomCallback options of
                Some f \<Rightarrow> f (snd (snd m)) matrix
              | None \<Rightarrow> Matrix matrix)
      | None \<Rightarrow> Flag True)"

definition DEFAULT_MAXOPS :: nat where
  "DEFAULT_MAXOPS = 20000"

definition findPath_defaults :: "MoveOptions \<Rightarrow> MoveOptions" where
  "findPath_defaults options =
     options\<lparr>ignoreCreeps := dflt (ignoreCreeps options) True,
             maxOps := dflt (maxOps options) DEFAULT_MAXOPS,
             opt_range := dflt (opt_range options) 1,
             terrainCosts := dflt (terrainCosts options) \<lparr>plainCost = 1, swampCost = 5\<rparr>\<rparr>"

text \<open>
  The body of \<open>findPath\<close> up to and including its call of the search oracle: the search
  result, the options object as the body leaves it, the room distance, the allowed rooms
  and the effects. \<open>the\<close> is the non-null assertion \<open>!\<close> of the source on a field the
  defaults have set.
\<close>

record Attempt =
  att_ret :: PathFinderPath
  att_options :: MoveOptions
  att_roomDistance :: int
  att_allowedRooms :: "(string \<rightharpoonup> bool) option"
  att_effects :: "Effect list"

definition findPath_search :: "Game \<Rightarrow> RoomPosition \<Rightarrow> RoomPosition \<Rightarrow> MoveOptions \<Rightarrow> Attempt" where
  "findPath_search g origin destination options0 =
     (let options1 = findPath_defaults options0;
          options2 = (if truthy (movingTarget options1) then options1\<lparr>opt_range := Some 0\<rparr>
                      else options1);
          roomDistance = getRoomLinearDistance g (pos_roomName origin) (pos_roomName destination);
          fr = (if route options2 = None
                   \<and> (truthy (useFindRoute options2)
                        \<or> (useFindRoute options2 = None \<and> roomDistance > 2))
                then findRoute g (pos_roomName origin) (pos_roomName destination) options2
                else (route options2, []));
          allowedRooms = fst fr;
          options3 = (if truthy (direct options2)
                      then options2\<lparr>terrainCosts := Some \<lparr>plainCost = 1, swampCost = 1\<rparr>\<rparr>
                      else options2);
          ret = PathFinder_search g origin
                  [\<lparr>goal_pos = destination, goal_range = the (opt_range options3)\<rparr>]
                  \<lparr>so_maxOps = maxOps options3,
                   so_maxRooms = maxRooms options3,
                   so_plainCost = plainCost (the (terrainCosts options3)),
                   so_swampCost = swampCost (the (terrainCosts options3)),
                   so_flee = False,
                   so_roomCallback =
                     (\<lambda>rn. roomCallback g rn origin destination allowedRooms options3)\<rparr>
      in \<lparr>att_ret = ret, att_options = options3, att_roomDistance = roomDistance,
          att_allowedRooms = allowedRooms, att_effects = snd fr @ [PathFinderSearch]\<rparr>)"

definition retryNeeded :: "Attempt \<Rightarrow> bool" where
  "retryNeeded a =
     (incomplete (att_ret a) \<and> truthy (ensurePath (att_options a))
      \<and> useFindRoute (att_options a) = None \<and> att_roomDistance a \<le> 2)"

function findPath ::
  "Game \<Rightarrow> RoomPosition \<Rightarrow> RoomPosition \<Rightarrow> MoveOptions \<Rightarrow> PathFinderPath \<times> Effect list" where
  "findPath g origin destination options =
     (let a = findPath_search g origin destination options in
      if retryNeeded a
        then (let r = findPath g origin destination ((att_options a)\<lparr>useFindRoute := Some True\<rparr>)
              in (fst r,
                  att_effects a
                  @ [LogWarning ''Movement: path failed without findroute. Trying again with options.useFindRoute = true...'']
                  @ snd r
                  @ [LogWarning (if incomplete (fst r)
                                 then ''Movement: second attempt was not successful''
                                 else ''Movement: second attempt was successful'')]))
      else (att_ret a, att_effects a))"
  by pat_completeness auto
termination
  by (relation "measure (\<lambda>(g, origin, destination, options).
                  if useFindRoute options = None then 1 else 0)")
     (auto simp: retryNeeded_def findPath_search_def findPath_defaults_def Let_def
           split: if_splits)

declare findPath.simps [simp del]

definition findShortestPath ::
  "Game \<Rightarrow> RoomPosition \<Rightarrow> RoomPosition \<Rightarrow> MoveOptions \<Rightarrow> PathFinderPath \<times> Effect list" where
  "findShortestPath g startPos endPos options =
     (let options1 = options\<lparr>ignoreCreeps := dflt (ignoreCreeps options) True,
                             opt_range := dflt (opt_range options) 1,
                             direct := dflt (direct options) True\<rparr>;
          r = findPath g startPos endPos options1
      in (fst r, snd r @ (if incomplete (fst r)
                          then [LogAlert ''Pathing: incomplete path''] else [])))"

section \<open>Distance and path weight calculations\<close>

text \<open>
  \<open>Memory.pathing\<close>: two tables with two levels of keys. \<open>table_ensure\<close> is the
  \<open>if (!table[name1]) table[name1] = {}\<close> of the source; a stored number is falsy when it
  is zero.
\<close>

type_synonym DistanceTable = "string \<rightharpoonup> (string \<rightharpoonup> nat)"

record PathingMemory =
  distances :: DistanceTable
  weightedDistances :: DistanceTable

definition table_ensure :: "DistanceTable \<Rightarrow> string \<Rightarrow> DistanceTable" where
  "table_ensure t k1 = (case t k1 of None \<Rightarrow> t(k1 \<mapsto> Map.empty) | Some row \<Rightarrow> t)"

definition table_get :: "DistanceTable \<Rightarrow> string \<Rightarrow> string \<Rightarrow> nat option" where
  "table_get t k1 k2 = (case t k1 of None \<Rightarrow> None | Some row \<Rightarrow> row k2)"

definition table_put :: "DistanceTable \<Rightarrow> string \<Rightarrow> string \<Rightarrow> nat \<Rightarrow> DistanceTable" where
  "table_put t k1 k2 v = (case t k1 of None \<Rightarrow> t | Some row \<Rightarrow> t(k1 \<mapsto> row(k2 \<mapsto> v)))"

fun falsy :: "nat option \<Rightarrow> bool" where
  "falsy None = True"
| "falsy (Some v) = (v = 0)"

definition distance ::
  "Game \<Rightarrow> PathingMemory \<Rightarrow> RoomPosition \<Rightarrow> RoomPosition
     \<Rightarrow> nat option \<times> PathingMemory \<times> Effect list" where
  "distance g mem arg1 arg2 =
     (let names = sort [posName g arg1, posName g arg2];
          name1 = names ! 0;
          name2 = names ! 1;
          t1 = table_ensure (distances mem) name1
      in if falsy (table_get t1 name1 name2)
           then (let r = findShortestPath g arg1 arg2 noOptions;
                     t2 = (if \<not> incomplete (fst r)
                           then table_put t1 name1 name2 (length (path (fst r))) else t1)
                 in (table_get t2 name1 name2, mem\<lparr>distances := t2\<rparr>, snd r))
         else (table_get t1 name1 name2, mem\<lparr>distances := t1\<rparr>, []))"

text \<open>
  Modelled from the spec: \<open>pos.room\<close>, \<open>pos.lookForStructure\<close> and \<open>pos.lookFor\<close> are
  prototypes that are not in the sources. A tile weighs "+1 for road-covered tiles or any
  tile in an unobserved region, +2 for plain, +10 for swamp"; the road is looked up among
  the structures of the room in vision, the terrain in the map.
\<close>

definition lookForRoad :: "Room \<Rightarrow> RoomPosition \<Rightarrow> bool" where
  "lookForRoad room pos =
     (\<exists>s \<in> set (find_structures room). s_pos s = pos \<and> structureType s = STRUCTURE_ROAD)"

definition tileWeight :: "Game \<Rightarrow> RoomPosition \<Rightarrow> nat" where
  "tileWeight g pos =
     (case rooms g (pos_roomName pos) of
        None \<Rightarrow> 1
      | Some room \<Rightarrow>
          if lookForRoad room pos then 1
          else (case getTerrainAt g (pos_x pos) (pos_y pos) (pos_roomName pos) of
                  plain \<Rightarrow> 2 | swamp \<Rightarrow> 10 | wall \<Rightarrow> 0))"

definition calculatePathWeight ::
  "Game \<Rightarrow> RoomPosition \<Rightarrow> RoomPosition \<Rightarrow> MoveOptions \<Rightarrow> nat \<times> Effect list" where
  "calculatePathWeight g startPos endPos options =
     (let options1 = options\<lparr>opt_range := dflt (opt_range options) 1\<rparr>;
          r = findPath g startPos endPos options1;
          weight = fold (\<lambda>pos weight. weight + tileWeight g pos) (path (fst r)) 0
      in (weight, snd r))"

definition weightedDistance ::
  "Game \<Rightarrow> PathingMemory \<Rightarrow> RoomPosition \<Rightarrow> RoomPosition
     \<Rightarrow> nat option \<times> PathingMemory \<times> Effect list" where
  "weightedDistance g mem arg1 arg2 =
     (let pos1 = (if posName g arg1 < posName g arg2 then arg1 else arg2);
          pos2 = (if posName g arg1 < posName g arg2 then arg2 else arg1);
          t1 = table_ensure (weightedDistances mem) (posName g pos1)
      in if falsy (table_get t1 (posName g pos1) (posName g pos2))
           then (let w = calculatePathWeight g pos1 pos2 noOptions;
                     t2 = table_put t1 (posName g pos1) (posName g pos2) (fst w)
                 in (table_get t2 (posName g pos1) (posName g pos2),
                     mem\<lparr>weightedDistances := t2\<rparr>, snd w))
         else (table_get t1 (posName g pos1) (posName g pos2),
               mem\<lparr>weightedDistances := t1\<rparr>, []))"

section \<open>isReachable\<close>

definition isReachable_obstacle :: "PosLike \<Rightarrow> CostMatrixBits \<Rightarrow> CostMatrixBits" where
  "isReachable_obstacle obstacle matrix =
     (case obstacle of
        HasPos p \<Rightarrow> bits_set matrix (pos_x p) (pos_y p) 254
      | IsPos p \<Rightarrow> bits_set matrix (pos_x p) (pos_y p) 254)"

definition isReachable_matrix :: "PosLike list \<Rightarrow> CostMatrixBits" where
  "isReachable_matrix obstacleList = fold isReachable_obstacle obstacleList bits_new"

text \<open>The loop over the returned path; an undefined cost is not greater than 100.\<close>

fun isReachable_path :: "CostMatrixBits \<Rightarrow> RoomPosition list \<Rightarrow> bool" where
  "isReachable_path matrix [] = True"
| "isReachable_path matrix (pos # ps) =
     (if (case bits_get matrix (pos_x pos) (pos_y pos) of None \<Rightarrow> False | Some c \<Rightarrow> c > 100)
        then False
      else isReachable_path matrix ps)"

definition isReachable_search ::
  "Game \<Rightarrow> RoomPosition \<Rightarrow> RoomPosition \<Rightarrow> PosLike list \<Rightarrow> MoveOptions \<Rightarrow> PathFinderPath" where
  "isReachable_search g startPos endPos obstacleList options =
     (let options1 = options\<lparr>ignoreCreeps := dflt (ignoreCreeps options) True,
                             opt_range := dflt (opt_range options) 1,
                             maxOps := dflt (maxOps options) 1000,
                             ensurePath := dflt (ensurePath options) False\<rparr>;
          matrix = isReachable_matrix obstacleList
      in PathFinder_search g startPos
           [\<lparr>goal_pos = endPos, goal_range = the (opt_range options1)\<rparr>]
           \<lparr>so_maxOps = maxOps options1, so_maxRooms = Some 1, so_plainCost = 1,
            so_swampCost = 5, so_flee = False,
            so_roomCallback =
              (\<lambda>rn. if rn = pos_roomName endPos then Matrix matrix else Flag False)\<rparr>)"

definition isReachable ::
  "Game \<Rightarrow> RoomPosition \<Rightarrow> RoomPosition \<Rightarrow> PosLike list \<Rightarrow> MoveOptions \<Rightarrow> bool \<times> Effect list" where
  "isReachable g startPos endPos obstacleList options =
     (if pos_roomName startPos \<noteq> pos_roomName endPos
        then (False, [LogError ''isReachable() should only be used within a single room!''])
      else (let ret = isReachable_search g startPos endPos obstacleList options
            in if incomplete ret then (False, [PathFinderSearch])
               else (isReachable_path (isReachable_matrix obstacleList) (path ret),
                     [PathFinderSearch])))"

section \<open>findPathablePosition\<close>

text \<open>
  The three nested loops, innermost first; \<open>Some\<close> is the \<open>return\<close> inside the loops,
  \<open>None\<close> a loop that ran to its end.
\<close>

fun scan_dy :: "Game \<Rightarrow> string \<Rightarrow> int \<Rightarrow> int \<Rightarrow> int list \<Rightarrow> RoomPosition option" where
  "scan_dy g rn radius dx [] = None"
| "scan_dy g rn radius dx (dy # dys) =
     (if \<bar>dy\<bar> \<noteq> radius \<and> \<bar>dx\<bar> \<noteq> radius then scan_dy g rn radius dx dys
      else if getTerrainAt g (25 + dx) (25 + dy) rn \<noteq> wall
        then Some (mkRoomPosition (25 + dx) (25 + dy) rn)
      else scan_dy g rn radius dx dys)"

fun scan_dx :: "Game \<Rightarrow> string \<Rightarrow> int \<Rightarrow> int list \<Rightarrow> RoomPosition option" where
  "scan_dx g rn radius [] = None"
| "scan_dx g rn radius (dx # dxs) =
     (case scan_dy g rn radius dx [- radius .. radius] of
        Some p \<Rightarrow> Some p
      | None \<Rightarrow> scan_dx g rn radius dxs)"

fun scan_radius :: "Game \<Rightarrow> string \<Rightarrow> int list \<Rightarrow> RoomPosition option" where
  "scan_radius g rn [] = None"
| "scan_radius g rn (radius # rs) =
     (case scan_dx g rn radius [- radius .. radius] of
        Some p \<Rightarrow> Some p
      | None \<Rightarrow> scan_radius g rn rs)"

definition findPathablePosition :: "Game \<Rightarrow> string \<Rightarrow> RoomPosition" where
  "findPathablePosition g rn =
     (case scan_radius g rn [0 .. 22] of
        Some p \<Rightarrow> p
      | None \<Rightarrow> mkRoomPosition (- 10) (- 10) ''cannotFindPathablePosition'')"

section \<open>The scan order of findPathablePosition, as the specification words it\<close>

text \<open>
  "Spiral search outward from the region center (radius 0..22, ring-by-ring) for the
  first non-wall tile": the offsets of the ring of radius \<open>r\<close>, the rings in order, and the
  first tile of a list of offsets that is not a wall.
\<close>

definition ringOffsets :: "int \<Rightarrow> (int \<times> int) list" where
  "ringOffsets r =
     concat (map (\<lambda>dx. map (Pair dx) (filter (\<lambda>dy. \<bar>dy\<bar> = r \<or> \<bar>dx\<bar> = r) [- r .. r])) [- r .. r])"

definition scanOffsets :: "(int \<times> int) list" where
  "scanOffsets = concat (map ringOffsets [0 .. 22])"

definition firstPathable :: "Game \<Rightarrow> string \<Rightarrow> (int \<times> int) list \<Rightarrow> RoomPosition option" where
  "firstPathable g rn offs =
     map_option (\<lambda>d. mkRoomPosition (25 + fst d) (25 + snd d) rn)
       (find (\<lambda>d. getTerrainAt g (25 + fst d) (25 + snd d) rn \<noteq> wall) offs)"

section \<open>Observations of a call\<close>

text \<open>The number of calls of the search oracle among the effects of a call.\<close>

definition searches :: "Effect list \<Rightarrow> nat" where
  "searches es = length (filter (\<lambda>e. e = PathFinderSearch) es)"

section \<open>Contents of the matrices\<close>

text \<open>
  The writes of the matrix builders, on the contents of the one matrix they write to:
  each function below does to the contents what the step of the builder above does to
  the store through the reference of the matrix under construction.
\<close>

definition bits_structure_step :: "Structure \<Rightarrow> CostMatrixBits \<Rightarrow> CostMatrixBits" where
  "bits_structure_step s m =
     (if structureType s = STRUCTURE_ROAD then bits_set m (pos_x (s_pos s)) (pos_y (s_pos s)) 1
      else m)"

definition bits_impassible :: "Structure \<Rightarrow> CostMatrixBits \<Rightarrow> CostMatrixBits" where
  "bits_impassible s m = bits_set m (pos_x (s_pos s)) (pos_y (s_pos s)) 255"

definition bits_site :: "ConstructionSite \<Rightarrow> CostMatrixBits \<Rightarrow> CostMatrixBits" where
  "bits_site site m =
     (if site_my site \<and> \<not> site_isWalkable site
        then bits_set m (pos_x (site_pos site)) (pos_y (site_pos site)) 255
      else m)"

definition isImpassible :: "Structure \<Rightarrow> bool" where
  "isImpassible s = (structureType s \<noteq> STRUCTURE_ROAD \<and> \<not> s_isWalkable s)"

definition defaultBits :: "Room \<Rightarrow> CostMatrixBits" where
  "defaultBits room =
     fold bits_site (find_construction_sites room)
       (fold bits_impassible (filter isImpassible (find_structures room))
          (fold bits_structure_step (find_structures room) bits_new))"

definition directBits :: "Room \<Rightarrow> CostMatrixBits" where
  "directBits room =
     fold bits_site (find_construction_sites room)
       (fold bits_impassible (filter (\<lambda>s. \<not> s_isWalkable s) (find_structures room)) bits_new)"

definition bits_creep :: "Creep \<Rightarrow> CostMatrixBits \<Rightarrow> CostMatrixBits" where
  "bits_creep c m = bits_set m (pos_x (c_pos c)) (pos_y (c_pos c)) 255"

definition bits_kiting_cell :: "Creep \<Rightarrow> int \<Rightarrow> int \<Rightarrow> CostMatrixBits \<Rightarrow> CostMatrixBits" where
  "bits_kiting_cell avoidCreep dx dy m =
     bits_set m (pos_x (c_pos avoidCreep) + dx) (pos_y (c_pos avoidCreep) + dy)
       (case bits_get m (pos_x (c_pos avoidCreep) + dx) (pos_y (c_pos avoidCreep) + dy) of
          None \<Rightarrow> 0
        | Some cost \<Rightarrow> int cost + (40 - 10 * max \<bar>dx\<bar> \<bar>dy\<bar>))"

definition bits_kiting_creep :: "Creep \<Rightarrow> CostMatrixBits \<Rightarrow> CostMatrixBits" where
  "bits_kiting_creep avoidCreep m =
     fold (\<lambda>dx. fold (\<lambda>dy. bits_kiting_cell avoidCreep dx dy) [- 3 .. 3]) [- 3 .. 3] m"

definition bits_lair :: "RoomPosition \<Rightarrow> CostMatrixBits \<Rightarrow> CostMatrixBits" where
  "bits_lair lair m =
     fold (\<lambda>dx. fold (\<lambda>dy m. bits_set m (pos_x lair + dx) (pos_y lair + dy) 255) [- 5 .. 5])
       [- 5 .. 5] m"

definition bits_obstacle :: "string \<Rightarrow> RoomPosition option \<Rightarrow> CostMatrixBits \<Rightarrow> CostMatrixBits" where
  "bits_obstacle rn obstacle m =
     (case obstacle of
        None \<Rightarrow> m
      | Some ob \<Rightarrow> if pos_roomName ob = rn then bits_set m (pos_x ob) (pos_y ob) 255 else m)"

text \<open>What stands on a tile of a room.\<close>

definition impassibleAt :: "Room \<Rightarrow> int \<Rightarrow> int \<Rightarrow> bool" where
  "impassibleAt room xx yy =
     (\<exists>s \<in> set (find_structures room). structureType s \<noteq> STRUCTURE_ROAD \<and> \<not> s_isWalkable s
        \<and> pos_x (s_pos s) = xx \<and> pos_y (s_pos s) = yy)"

definition ownSiteAt :: "Room \<Rightarrow> int \<Rightarrow> int \<Rightarrow> bool" where
  "ownSiteAt room xx yy =
     (\<exists>s \<in> set (find_construction_sites room). site_my s \<and> \<not> site_isWalkable s
        \<and> pos_x (site_pos s) = xx \<and> pos_y (site_pos s) = yy)"

definition roadAt :: "Room \<Rightarrow> int \<Rightarrow> int \<Rightarrow> bool" where
  "roadAt room xx yy =
     (\<exists>s \<in> set (find_structures room). structureType s = STRUCTURE_ROAD
        \<and> pos_x (s_pos s) = xx \<and> pos_y (s_pos s) = yy)"

definition creepAt :: "Room \<Rightarrow> int \<Rightarrow> int \<Rightarrow> bool" where
  "creepAt room xx yy =
     (\<exists>c \<in> set (find_creeps room). pos_x (c_pos c) = xx \<and> pos_y (c_pos c) = yy)"

text \<open>
  The penalty one hostile adds to a tile, and the penalty of a list of hostiles.
\<close>

definition kitingPenalty :: "Creep \<Rightarrow> int \<Rightarrow> int \<Rightarrow> nat" where
  "kitingPenalty c xx yy =
     (if \<bar>xx - pos_x (c_pos c)\<bar> \<le> 3 \<and> \<bar>yy - pos_y (c_pos c)\<bar> \<le> 3
      then nat (40 - 10 * max \<bar>xx - pos_x (c_pos c)\<bar> \<bar>yy - pos_y (c_pos c)\<bar>) else 0)"

definition roomPenalty :: "Creep list \<Rightarrow> int \<Rightarrow> int \<Rightarrow> nat" where
  "roomPenalty cs xx yy = sum_list (map (\<lambda>c. kitingPenalty c xx yy) cs)"

section \<open>Stability of the cached variants\<close>

text \<open>
  A getter of a cached variant, called in a well-formed state, extends the store, returns
  a valid reference, keeps the room well-formed, and from then on returns the same object
  without touching the store.
\<close>

definition cachedGetter ::
  "(MatrixStore \<Rightarrow> Room \<Rightarrow> ref \<times> MatrixStore \<times> Room) \<Rightarrow> MatrixStore \<Rightarrow> Room \<Rightarrow> bool" where
  "cachedGetter G st room =
     ((\<exists>ext. fst (snd (G st room)) = st @ ext)
      \<and> fst (G st room) < length (fst (snd (G st room)))
      \<and> wfRoom (fst (snd (G st room))) (snd (snd (G st room)))
      \<and> room_name (snd (snd (G st room))) = room_name room
      \<and> (\<forall>st2. G st2 (snd (snd (G st room))) = (fst (G st room), st2, snd (snd (G st room)))))"

text \<open>
  The same for the variant chosen by the options, where the variant of
  \<open>ignoreStructures\<close> is a fresh empty matrix at every call: called again in a later
  state, the variant has the contents it had.
\<close>

definition stableVariant :: "Game \<Rightarrow> MoveOptions \<Rightarrow> MatrixStore \<Rightarrow> Room \<Rightarrow> bool" where
  "stableVariant g options st room =
     ((\<exists>ext. fst (snd (getCostMatrix_variant g st room options)) = st @ ext)
      \<and> fst (getCostMatrix_variant g st room options)
          < length (fst (snd (getCostMatrix_variant g st room options)))
      \<and> wfRoom (fst (snd (getCostMatrix_variant g st room options)))
          (snd (snd (getCostMatrix_variant g st room options)))
      \<and> room_name (snd (snd (getCostMatrix_variant g st room options))) = room_name room
      \<and> (\<forall>ext.
            (\<exists>ext2. fst (snd (getCostMatrix_variant g
                               (fst (snd (getCostMatrix_variant g st room options)) @ ext)
                               (snd (snd (getCostMatrix_variant g st room options))) options))
                     = fst (snd (getCostMatrix_variant g st room options)) @ ext @ ext2)
            \<and> fst (getCostMatrix_variant g
                      (fst (snd (getCostMatrix_variant g st room options)) @ ext)
                      (snd (snd (getCostMatrix_variant g st room options))) options)
                < length (fst (snd (getCostMatrix_variant g
                      (fst (snd (getCostMatrix_variant g st room options)) @ ext)
                      (snd (snd (getCostMatrix_variant g st room options))) options)))
            \<and> fst (snd (getCostMatrix_variant g
                      (fst (snd (getCostMatrix_variant g st room options)) @ ext)
                      (snd (snd (getCostMatrix_variant g st room options))) options))
                ! fst (getCostMatrix_variant g
                      (fst (snd (getCostMatrix_variant g st room options)) @ ext)
                      (snd (snd (getCostMatrix_variant g st room options))) options)
                = fst (snd (getCostMatrix_variant g st room options))
                    ! fst (getCostMatrix_variant g st room options)
            \<and> snd (snd (getCostMatrix_variant g
                      (fst (snd (getCostMatrix_variant g st room options)) @ ext)
                      (snd (snd (getCostMatrix_variant g st room options))) options))
                = snd (snd (getCostMatrix_variant g st room options))))"

section \<open>Example worlds\<close>

text \<open>Concrete games, rooms and oracles at which the theorems below are evaluated.\<close>

definition exampleCoord :: "string \<Rightarrow> int" where
  "exampleCoord rn =
     (case map_of [(''W0N0'', 0), (''W1N0'', 1), (''W2N0'', 2), (''W4N0'', 4), (''W5N0'', 5)] rn of
        Some c \<Rightarrow> c | None \<Rightarrow> 0)"

definition examplePosName :: "RoomPosition \<Rightarrow> string" where
  "examplePosName p =
     pos_roomName p @ '':'' @ replicate (nat (pos_x p)) CHR ''x'' @ '':''
       @ replicate (nat (pos_y p)) CHR ''y''"

definition exampleGame :: Game where
  "exampleGame =
     \<lparr>getRoomLinearDistance = (\<lambda>a b. \<bar>exampleCoord a - exampleCoord b\<bar>),
      getTerrainAt = (\<lambda>xx yy rn. plain),
      map_findRoute = (\<lambda>origin destination cb. Inr [\<lparr>step_exit = 3, step_room = ''W1N0''\<rparr>]),
      PathFinder_search = (\<lambda>origin goals opts. \<lparr>path = [], incomplete = False\<rparr>),
      rooms = Map.empty,
      store = [],
      memory_rooms = Map.empty,
      roomType = (\<lambda>rn. ROOMTYPE_CONTROLLER),
      posName = examplePosName\<rparr>"

definition terrainWalls :: "(int \<times> int) list \<Rightarrow> int \<Rightarrow> int \<Rightarrow> string \<Rightarrow> Terrain" where
  "terrainWalls ws xx yy rn = (if (xx, yy) \<in> set ws then wall else plain)"

definition exampleAllowed :: "string \<rightharpoonup> bool" where
  "exampleAllowed = [''W0N0'' \<mapsto> True, ''W2N0'' \<mapsto> True, ''W1N0'' \<mapsto> True]"

definition retrySearch :: "RoomPosition \<Rightarrow> Goal list \<Rightarrow> SearchOpts \<Rightarrow> PathFinderPath" where
  "retrySearch origin goals opts =
     (case so_roomCallback opts ''W9N0'' of
        Flag True \<Rightarrow> \<lparr>path = [mkRoomPosition 6 6 ''W0N0''], incomplete = True\<rparr>
      | _ \<Rightarrow> \<lparr>path = [mkRoomPosition 6 5 ''W0N0'', mkRoomPosition 7 5 ''W0N0''],
               incomplete = False\<rparr>)"

definition retryGame :: Game where
  "retryGame = exampleGame\<lparr>PathFinder_search := retrySearch\<rparr>"

definition ensureOptions :: MoveOptions where
  "ensureOptions = noOptions\<lparr>ensurePath := Some True\<rparr>"

definition constSearch ::
  "RoomPosition list \<Rightarrow> bool \<Rightarrow> RoomPosition \<Rightarrow> Goal list \<Rightarrow> SearchOpts \<Rightarrow> PathFinderPath" where
  "constSearch ps inc origin goals opts = \<lparr>path = ps, incomplete = inc\<rparr>"

definition emptyMemory :: PathingMemory where
  "emptyMemory = \<lparr>distances = Map.empty, weightedDistances = Map.empty\<rparr>"

definition partialSearch :: "RoomPosition \<Rightarrow> Goal list \<Rightarrow> SearchOpts \<Rightarrow> PathFinderPath" where
  "partialSearch origin goals opts =
     \<lparr>path = [mkRoomPosition 6 6 ''W0N0'', mkRoomPosition 7 7 ''W0N0'', mkRoomPosition 8 8 ''W0N0''],
      incomplete = True\<rparr>"

definition partialGame :: Game where
  "partialGame = exampleGame\<lparr>PathFinder_search := partialSearch\<rparr>"

definition directedSearch :: "RoomPosition \<Rightarrow> Goal list \<Rightarrow> SearchOpts \<Rightarrow> PathFinderPath" where
  "directedSearch origin goals opts =
     (if pos_roomName origin = ''W0N0''
      then \<lparr>path = [mkRoomPosition 6 6 ''W0N0'', mkRoomPosition 7 7 ''W0N0'',
                    mkRoomPosition 8 8 ''W0N0''], incomplete = False\<rparr>
      else \<lparr>path = [mkRoomPosition 8 9 ''W0N0'', mkRoomPosition 7 9 ''W0N0'',
                    mkRoomPosition 6 8 ''W0N0'', mkRoomPosition 5 7 ''W0N0'',
                    mkRoomPosition 5 6 ''W0N0''], incomplete = False\<rparr>)"

definition directedGame :: Game where
  "directedGame = exampleGame\<lparr>PathFinder_search := directedSearch\<rparr>"

definition oneWaySearch :: "RoomPosition \<Rightarrow> Goal list \<Rightarrow> SearchOpts \<Rightarrow> PathFinderPath" where
  "oneWaySearch origin goals opts =
     (if pos_roomName origin = ''W0N0''
      then \<lparr>path = [mkRoomPosition 6 6 ''W0N0''], incomplete = True\<rparr>
      else \<lparr>path = [mkRoomPosition 8 9 ''W0N0'', mkRoomPosition 7 9 ''W0N0'',
                    mkRoomPosition 6 8 ''W0N0'', mkRoomPosition 5 7 ''W0N0'',
                    mkRoomPosition 5 6 ''W0N0''], incomplete = False\<rparr>)"

definition oneWayGame :: Game where
  "oneWayGame = exampleGame\<lparr>PathFinder_search := oneWaySearch\<rparr>"

definition exampleHostile :: Creep where
  "exampleHostile = \<lparr>c_pos = mkRoomPosition 20 20 ''W0N0'', attackParts = 2, rangedAttackParts = 0\<rparr>"

definition exampleRoom :: Room where
  "exampleRoom =
     \<lparr>room_name = ''W0N0'',
      find_structures =
        [\<lparr>s_pos = mkRoomPosition 10 10 ''W0N0'', structureType = STRUCTURE_ROAD, s_isWalkable = True\<rparr>,
         \<lparr>s_pos = mkRoomPosition 11 10 ''W0N0'', structureType = ''constructedWall'',
          s_isWalkable = False\<rparr>,
         \<lparr>s_pos = mkRoomPosition 24 24 ''W0N0'', structureType = ''extension'',
          s_isWalkable = False\<rparr>],
      find_construction_sites =
        [\<lparr>site_pos = mkRoomPosition 13 10 ''W0N0'', site_my = True, site_isWalkable = False\<rparr>],
      find_creeps =
        [exampleHostile,
         \<lparr>c_pos = mkRoomPosition 30 30 ''W0N0'', attackParts = 0, rangedAttackParts = 0\<rparr>],
      hostiles = [exampleHostile],
      keeperLairs = [],
      defaultMatrix_slot = None, directMatrix_slot = None, creepMatrix_slot = None,
      kitingMatrix_slot = None, skMatrix_slot = None\<rparr>"

definition openRoom :: Room where
  "openRoom = exampleRoom\<lparr>find_structures := [], find_construction_sites := []\<rparr>"

definition wallGame :: Game where
  "wallGame = exampleGame\<lparr>getTerrainAt := terrainWalls [(15, 15), (10, 10)],
                          rooms := [''W0N0'' \<mapsto> exampleRoom]\<rparr>"

definition purityCall1 :: "ref \<times> MatrixStore \<times> Room" where
  "purityCall1 =
     getCostMatrix exampleGame [] exampleRoom
       (noOptions\<lparr>obstacles := [Some (mkRoomPosition 12 12 ''W0N0'')]\<rparr>) True"

definition purityCall2 :: "ref \<times> MatrixStore \<times> Room" where
  "purityCall2 =
     getCostMatrix exampleGame (fst (snd purityCall1)) (snd (snd purityCall1))
       (noOptions\<lparr>obstacles := [Some (mkRoomPosition 14 14 ''W0N0''), None]\<rparr>) False"

definition purityCall3 :: "ref \<times> MatrixStore \<times> Room" where
  "purityCall3 =
     getCostMatrix exampleGame (fst (snd purityCall2)) (snd (snd purityCall2))
       (noOptions\<lparr>obstacles := []\<rparr>) False"

section \<open>Properties\<close>

subsection \<open>findPathablePosition\<close>

lemma firstPathable_append:
  "firstPathable g rn (xs @ ys) =
     (case firstPathable g rn xs of Some p \<Rightarrow> Some p | None \<Rightarrow> firstPathable g rn ys)"
  by (induction xs) (auto simp: firstPathable_def)

lemma scan_dy_first:
  "scan_dy g rn r dx dys =
     firstPathable g rn (map (Pair dx) (filter (\<lambda>dy. \<bar>dy\<bar> = r \<or> \<bar>dx\<bar> = r) dys))"
  by (induction dys) (auto simp: firstPathable_def)

lemma scan_dx_first:
  "scan_dx g rn r dxs =
     firstPathable g rn
       (concat (map (\<lambda>dx. map (Pair dx) (filter (\<lambda>dy. \<bar>dy\<bar> = r \<or> \<bar>dx\<bar> = r) [- r .. r])) dxs))"
proof (induction dxs)
  case Nil
  show ?case by (simp add: firstPathable_def)
next
  case (Cons dx dxs)
  then show ?case by (simp add: firstPathable_append scan_dy_first split: option.splits)
qed

lemma scan_radius_first:
  "scan_radius g rn rs = firstPathable g rn (concat (map ringOffsets rs))"
proof (induction rs)
  case Nil
  show ?case by (simp add: firstPathable_def)
next
  case (Cons r rs)
  then show ?case by (simp add: firstPathable_append scan_dx_first ringOffsets_def split: option.splits)
qed

lemma findPathablePosition_first:
  "findPathablePosition g rn =
     (case firstPathable g rn scanOffsets of
        Some p \<Rightarrow> p
      | None \<Rightarrow> mkRoomPosition (- 10) (- 10) ''cannotFindPathablePosition'')"
  by (simp add: findPathablePosition_def scan_radius_first scanOffsets_def)

lemma scan_dy_None:
  "\<forall>dy \<in> set dys. getTerrainAt g (25 + dx) (25 + dy) rn = wall \<Longrightarrow> scan_dy g rn r dx dys = None"
  by (induction dys) auto

lemma scan_dx_None:
  "\<forall>dx \<in> set dxs. \<forall>dy \<in> {- r .. r}. getTerrainAt g (25 + dx) (25 + dy) rn = wall \<Longrightarrow>
   scan_dx g rn r dxs = None"
  by (induction dxs) (auto simp: scan_dy_None)

lemma scan_radius_None:
  "\<forall>r \<in> set rs. \<forall>dx \<in> {- r .. r}. \<forall>dy \<in> {- r .. r}. getTerrainAt g (25 + dx) (25 + dy) rn = wall \<Longrightarrow>
   scan_radius g rn rs = None"
  by (induction rs) (auto simp: scan_dx_None)

lemma upto_0_22: "[0 .. 22] = 0 # 1 # [2 .. 22]" by (simp add: upto.simps)
lemma upto_ring1: "[- 1 .. 1] = [- 1, 0, 1]" by (simp add: upto.simps)
lemma upto_ring0: "[0 .. 0] = [0::int]" by (simp add: upto.simps)

lemma findPathablePosition_centre:
  "getTerrainAt g 25 25 rn \<noteq> wall \<Longrightarrow> findPathablePosition g rn = mkRoomPosition 25 25 rn"
  by (simp add: findPathablePosition_def upto_0_22 upto_ring0)

lemma findPathablePosition_ring1_first:
  "getTerrainAt g 25 25 rn = wall \<Longrightarrow> getTerrainAt g 24 24 rn \<noteq> wall \<Longrightarrow>
   findPathablePosition g rn = mkRoomPosition 24 24 rn"
  by (simp add: findPathablePosition_def upto_0_22 upto_ring0 upto_ring1)

lemma findPathablePosition_ring1_second:
  "getTerrainAt g 25 25 rn = wall \<Longrightarrow> getTerrainAt g 24 24 rn = wall \<Longrightarrow>
   getTerrainAt g 24 25 rn \<noteq> wall \<Longrightarrow> findPathablePosition g rn = mkRoomPosition 24 25 rn"
  by (simp add: findPathablePosition_def upto_0_22 upto_ring0 upto_ring1)

lemma findPathablePosition_sentinel:
  assumes "\<forall>xx \<in> {3 .. 47}. \<forall>yy \<in> {3 .. 47}. getTerrainAt g xx yy rn = wall"
  shows "findPathablePosition g rn = mkRoomPosition (- 10) (- 10) ''cannotFindPathablePosition''"
proof -
  have "scan_radius g rn [0 .. 22] = None"
    by (rule scan_radius_None) (use assms in auto)
  then show ?thesis by (simp add: findPathablePosition_def)
qed

text \<open>
  Claim C9, as the code has it. \<open>findPathablePosition\<close> returns the first tile that is
  not a wall in its scan order (rings of radius 0 to 22 around (25,25); within a ring
  \<open>dx\<close> ascending, then \<open>dy\<close> ascending), and the sentinel position (-10,-10) of the room
  name \<open>cannotFindPathablePosition\<close> when every tile scanned is a wall. So it returns
  (25,25) when that tile is open; (24,24), the first tile of the first ring, when (25,25)
  is a wall and (24,24) is open; and (24,25) when (25,25) and (24,24) are walls and
  (24,25) is open.
\<close>

theorem C9_findPathablePosition_scan:
  "findPathablePosition g rn =
     (case firstPathable g rn scanOffsets of
        Some p \<Rightarrow> p
      | None \<Rightarrow> mkRoomPosition (- 10) (- 10) ''cannotFindPathablePosition'')
   \<and> (getTerrainAt g 25 25 rn \<noteq> wall \<longrightarrow> findPathablePosition g rn = mkRoomPosition 25 25 rn)
   \<and> (getTerrainAt g 25 25 rn = wall \<and> getTerrainAt g 24 24 rn \<noteq> wall \<longrightarrow>
        findPathablePosition g rn = mkRoomPosition 24 24 rn)
   \<and> (getTerrainAt g 25 25 rn = wall \<and> getTerrainAt g 24 24 rn = wall
        \<and> getTerrainAt g 24 25 rn \<noteq> wall \<longrightarrow>
        findPathablePosition g rn = mkRoomPosition 24 25 rn)
   \<and> ((\<forall>xx \<in> {3 .. 47}. \<forall>yy \<in> {3 .. 47}. getTerrainAt g xx yy rn = wall) \<longrightarrow>
        findPathablePosition g rn = mkRoomPosition (- 10) (- 10) ''cannotFindPathablePosition'')"
  using findPathablePosition_first [of g rn] findPathablePosition_centre [of g rn]
    findPathablePosition_ring1_first [of g rn] findPathablePosition_ring1_second [of g rn]
    findPathablePosition_sentinel [of g rn]
  by blast

text \<open>Claim C9 at four terrains: open, centre walled, centre and (24,24) walled, all walls.\<close>

theorem C9_witness:
  "findPathablePosition exampleGame ''W1N0'' = mkRoomPosition 25 25 ''W1N0''
   \<and> findPathablePosition (exampleGame\<lparr>getTerrainAt := terrainWalls [(25, 25)]\<rparr>) ''W1N0''
       = mkRoomPosition 24 24 ''W1N0''
   \<and> findPathablePosition (exampleGame\<lparr>getTerrainAt := terrainWalls [(25, 25), (24, 24)]\<rparr>) ''W1N0''
       = mkRoomPosition 24 25 ''W1N0''
   \<and> findPathablePosition (exampleGame\<lparr>getTerrainAt := (\<lambda>xx yy rn. wall)\<rparr>) ''W1N0''
       = mkRoomPosition (- 10) (- 10) ''cannotFindPathablePosition''"
proof -
  let ?g1 = "exampleGame\<lparr>getTerrainAt := terrainWalls [(25, 25)]\<rparr>"
  let ?g2 = "exampleGame\<lparr>getTerrainAt := terrainWalls [(25, 25), (24, 24)]\<rparr>"
  let ?g3 = "exampleGame\<lparr>getTerrainAt := (\<lambda>xx yy rn. wall)\<rparr>"
  have "getTerrainAt exampleGame 25 25 ''W1N0'' \<noteq> wall"
    by (simp add: exampleGame_def)
  with C9_findPathablePosition_scan [of exampleGame "''W1N0''"]
  have a: "findPathablePosition exampleGame ''W1N0'' = mkRoomPosition 25 25 ''W1N0''"
    by blast
  have "getTerrainAt ?g1 25 25 ''W1N0'' = wall \<and> getTerrainAt ?g1 24 24 ''W1N0'' \<noteq> wall"
    by (simp add: terrainWalls_def)
  with C9_findPathablePosition_scan [of ?g1 "''W1N0''"]
  have b: "findPathablePosition ?g1 ''W1N0'' = mkRoomPosition 24 24 ''W1N0''"
    by blast
  have "getTerrainAt ?g2 25 25 ''W1N0'' = wall \<and> getTerrainAt ?g2 24 24 ''W1N0'' = wall
        \<and> getTerrainAt ?g2 24 25 ''W1N0'' \<noteq> wall"
    by (simp add: terrainWalls_def)
  with C9_findPathablePosition_scan [of ?g2 "''W1N0''"]
  have c: "findPathablePosition ?g2 ''W1N0'' = mkRoomPosition 24 25 ''W1N0''"
    by blast
  have "\<forall>xx \<in> {3 .. 47}. \<forall>yy \<in> {3 .. 47}. getTerrainAt ?g3 xx yy ''W1N0'' = wall"
    by simp
  with C9_findPathablePosition_scan [of ?g3 "''W1N0''"]
  have d: "findPathablePosition ?g3 ''W1N0''
             = mkRoomPosition (- 10) (- 10) ''cannotFindPathablePosition''"
    by blast
  from a b c d show ?thesis by blast
qed

text \<open>
  Claim C9 as stated fails: with (25,25) a wall and (24,25) open the result is not
  (24,25) when (24,24), which is scanned before it, is open too.
\<close>

theorem C9_counterexample:
  "getTerrainAt (exampleGame\<lparr>getTerrainAt := terrainWalls [(25, 25)]\<rparr>) 25 25 ''W1N0'' = wall
   \<and> getTerrainAt (exampleGame\<lparr>getTerrainAt := terrainWalls [(25, 25)]\<rparr>) 24 25 ''W1N0'' \<noteq> wall
   \<and> findPathablePosition (exampleGame\<lparr>getTerrainAt := terrainWalls [(25, 25)]\<rparr>) ''W1N0''
       = mkRoomPosition 24 24 ''W1N0''
   \<and> findPathablePosition (exampleGame\<lparr>getTerrainAt := terrainWalls [(25, 25)]\<rparr>) ''W1N0''
       \<noteq> mkRoomPosition 24 25 ''W1N0''"
  by (simp add: findPathablePosition_ring1_first exampleGame_def terrainWalls_def mkRoomPosition_def)

subsection \<open>findRoute\<close>

lemma fold_allowed_keep:
  "a k = Some True \<Longrightarrow> fold (\<lambda>v allowed. allowed(step_room v \<mapsto> True)) steps a k = Some True"
  by (induction steps arbitrary: a) auto

text \<open>
  Claim C10. Whenever \<open>findRoute\<close> returns a set of allowed rooms, the origin and the
  destination are in it, whatever rooms the route oracle put on its route.
\<close>

theorem C10_findRoute_contains_endpoints:
  "fst (findRoute g origin destination options) = Some allowed \<Longrightarrow>
   allowed origin = Some True \<and> allowed destination = Some True"
  by (auto simp: findRoute_def Let_def fold_allowed_keep split: sum.splits)

text \<open>Claim C10 at a route of one intermediate room.\<close>

theorem C10_witness:
  "fst (findRoute exampleGame ''W0N0'' ''W2N0'' noOptions) = Some exampleAllowed
   \<and> exampleAllowed ''W0N0'' = Some True \<and> exampleAllowed ''W2N0'' = Some True"
proof -
  have h: "fst (findRoute exampleGame ''W0N0'' ''W2N0'' noOptions) = Some exampleAllowed"
    by (simp add: findRoute_def exampleGame_def exampleAllowed_def)
  from C10_findRoute_contains_endpoints [OF h] h show ?thesis by simp
qed

text \<open>
  Claim C4, as the code has it. The radius of the route callback is the caller's
  \<open>restrictDistance\<close> when that is given and not zero, and the linear distance from origin
  to destination plus 10 otherwise (it is not the maximum of the two). A room whose
  linear distance from the origin exceeds the radius costs \<open>+\<infinity>\<close>; a room within the
  radius that is not to be avoided has a finite cost.
\<close>

theorem C4_restriction_radius:
  "(restrictDistance options = Some r \<and> r \<noteq> 0 \<and> getRoomLinearDistance g origin rn > r
      \<longrightarrow> routeCallback g origin destination options rn = POSITIVE_INFINITY)
   \<and> ((restrictDistance options = None \<or> restrictDistance options = Some 0)
        \<and> getRoomLinearDistance g origin rn > getRoomLinearDistance g origin destination + 10
      \<longrightarrow> routeCallback g origin destination options rn = POSITIVE_INFINITY)
   \<and> (restrictDistance options = Some r \<and> r \<noteq> 0 \<and> getRoomLinearDistance g origin rn \<le> r
        \<and> \<not> shouldAvoid g rn
      \<longrightarrow> routeCallback g origin destination options rn \<noteq> POSITIVE_INFINITY)
   \<and> ((restrictDistance options = None \<or> restrictDistance options = Some 0)
        \<and> getRoomLinearDistance g origin rn \<le> getRoomLinearDistance g origin destination + 10
        \<and> \<not> shouldAvoid g rn
      \<longrightarrow> routeCallback g origin destination options rn \<noteq> POSITIVE_INFINITY)"
  by (auto simp: routeCallback_def findRoute_restrictDistance_def Let_def split: option.splits)

text \<open>Claim C4 at an override of 3 and at no override, one room beyond and one within.\<close>

theorem C4_witness:
  "routeCallback exampleGame ''W0N0'' ''W5N0'' (noOptions\<lparr>restrictDistance := Some 3\<rparr>) ''W4N0''
     = POSITIVE_INFINITY
   \<and> routeCallback (exampleGame\<lparr>getRoomLinearDistance := (\<lambda>a b. if b = ''W4N0'' then 16 else 5)\<rparr>)
       ''W0N0'' ''W5N0'' noOptions ''W4N0'' = POSITIVE_INFINITY
   \<and> routeCallback exampleGame ''W0N0'' ''W5N0'' (noOptions\<lparr>restrictDistance := Some 3\<rparr>) ''W2N0''
     \<noteq> POSITIVE_INFINITY
   \<and> routeCallback exampleGame ''W0N0'' ''W5N0'' noOptions ''W4N0'' \<noteq> POSITIVE_INFINITY"
proof -
  let ?far = "exampleGame\<lparr>getRoomLinearDistance := (\<lambda>a b. if b = ''W4N0'' then 16 else 5)\<rparr>"
  let ?o3 = "noOptions\<lparr>restrictDistance := Some 3\<rparr>"
  have "restrictDistance ?o3 = Some 3 \<and> (3::int) \<noteq> 0
        \<and> getRoomLinearDistance exampleGame ''W0N0'' ''W4N0'' > 3"
    by (simp add: exampleGame_def exampleCoord_def)
  with C4_restriction_radius [of ?o3 3 exampleGame "''W0N0''" "''W4N0''" "''W5N0''"]
  have a: "routeCallback exampleGame ''W0N0'' ''W5N0'' ?o3 ''W4N0'' = POSITIVE_INFINITY"
    by blast
  have "(restrictDistance noOptions = None \<or> restrictDistance noOptions = Some 0)
        \<and> getRoomLinearDistance ?far ''W0N0'' ''W4N0'' > getRoomLinearDistance ?far ''W0N0'' ''W5N0'' + 10"
    by (simp add: noOptions_def)
  with C4_restriction_radius [of noOptions 0 ?far "''W0N0''" "''W4N0''" "''W5N0''"]
  have b: "routeCallback ?far ''W0N0'' ''W5N0'' noOptions ''W4N0'' = POSITIVE_INFINITY"
    by blast
  have "restrictDistance ?o3 = Some 3 \<and> (3::int) \<noteq> 0
        \<and> getRoomLinearDistance exampleGame ''W0N0'' ''W2N0'' \<le> 3
        \<and> \<not> shouldAvoid exampleGame ''W2N0''"
    by (simp add: exampleGame_def exampleCoord_def shouldAvoid_def)
  with C4_restriction_radius [of ?o3 3 exampleGame "''W0N0''" "''W2N0''" "''W5N0''"]
  have c: "routeCallback exampleGame ''W0N0'' ''W5N0'' ?o3 ''W2N0'' \<noteq> POSITIVE_INFINITY"
    by blast
  have "(restrictDistance noOptions = None \<or> restrictDistance noOptions = Some 0)
        \<and> getRoomLinearDistance exampleGame ''W0N0'' ''W4N0''
            \<le> getRoomLinearDistance exampleGame ''W0N0'' ''W5N0'' + 10
        \<and> \<not> shouldAvoid exampleGame ''W4N0''"
    by (simp add: exampleGame_def exampleCoord_def shouldAvoid_def noOptions_def)
  with C4_restriction_radius [of noOptions 0 exampleGame "''W0N0''" "''W4N0''" "''W5N0''"]
  have d: "routeCallback exampleGame ''W0N0'' ''W5N0'' noOptions ''W4N0'' \<noteq> POSITIVE_INFINITY"
    by blast
  from a b c d show ?thesis by blast
qed

text \<open>
  Claim C4 as stated fails: with a linear distance of 5 and an override of 3 the radius
  is 3, not max (5 + 10) 3 = 15, and a room at distance 4 is cut off that the default
  radius admits.
\<close>

theorem C4_counterexample:
  "getRoomLinearDistance exampleGame ''W0N0'' ''W5N0'' = 5
   \<and> findRoute_restrictDistance exampleGame ''W0N0'' ''W5N0'' (noOptions\<lparr>restrictDistance := Some 3\<rparr>)
       \<noteq> max (getRoomLinearDistance exampleGame ''W0N0'' ''W5N0'' + 10) 3
   \<and> getRoomLinearDistance exampleGame ''W0N0'' ''W4N0''
       < max (getRoomLinearDistance exampleGame ''W0N0'' ''W5N0'' + 10) 3
   \<and> routeCallback exampleGame ''W0N0'' ''W5N0'' (noOptions\<lparr>restrictDistance := Some 3\<rparr>) ''W4N0''
       = POSITIVE_INFINITY
   \<and> routeCallback exampleGame ''W0N0'' ''W5N0'' noOptions ''W4N0'' = Finite 1"
  by (simp add: exampleGame_def exampleCoord_def routeCallback_def findRoute_restrictDistance_def
        findRoute_highwayBias_def noOptions_def shouldAvoid_def)

subsection \<open>findPath\<close>

lemma searches_append [simp]: "searches (xs @ ys) = searches xs + searches ys"
  by (simp add: searches_def)

lemma searches_simps [simp]:
  "searches [] = 0" "searches (PathFinderSearch # es) = Suc (searches es)"
  "searches (LogWarning w # es) = searches es"
  by (simp_all add: searches_def)

lemma findRoute_no_search: "searches (snd (findRoute g a b options)) = 0"
  by (simp add: findRoute_def Let_def split: sum.splits)

lemma att_options_fields:
  "useFindRoute (att_options (findPath_search g origin destination options)) = useFindRoute options"
  "ensurePath (att_options (findPath_search g origin destination options)) = ensurePath options"
  "route (att_options (findPath_search g origin destination options)) = route options"
  "att_roomDistance (findPath_search g origin destination options)
     = getRoomLinearDistance g (pos_roomName origin) (pos_roomName destination)"
  by (simp_all add: findPath_search_def findPath_defaults_def Let_def)

lemma att_effects_searches:
  "searches (att_effects (findPath_search g origin destination options)) = 1"
  by (simp add: findPath_search_def Let_def findRoute_no_search)

lemma retryNeeded_iff:
  "retryNeeded (findPath_search g origin destination options) =
     (incomplete (att_ret (findPath_search g origin destination options))
      \<and> truthy (ensurePath options) \<and> useFindRoute options = None
      \<and> getRoomLinearDistance g (pos_roomName origin) (pos_roomName destination) \<le> 2)"
  by (simp add: retryNeeded_def att_options_fields)

lemma findPath_no_retry:
  "\<not> retryNeeded (findPath_search g origin destination options) \<Longrightarrow>
   findPath g origin destination options
     = (att_ret (findPath_search g origin destination options),
        att_effects (findPath_search g origin destination options))"
  by (subst findPath.simps) (simp add: Let_def)

lemma findPath_forced:
  "useFindRoute options = Some True \<Longrightarrow>
   findPath g origin destination options
     = (att_ret (findPath_search g origin destination options),
        att_effects (findPath_search g origin destination options))"
  by (rule findPath_no_retry) (simp add: retryNeeded_iff)

lemma findPath_retry:
  assumes "retryNeeded (findPath_search g origin destination options)"
  shows "findPath g origin destination options
     = (att_ret (findPath_search g origin destination
                   ((att_options (findPath_search g origin destination options))\<lparr>useFindRoute := Some True\<rparr>)),
        att_effects (findPath_search g origin destination options)
        @ [LogWarning ''Movement: path failed without findroute. Trying again with options.useFindRoute = true...'']
        @ att_effects (findPath_search g origin destination
                   ((att_options (findPath_search g origin destination options))\<lparr>useFindRoute := Some True\<rparr>))
        @ [LogWarning (if incomplete (att_ret (findPath_search g origin destination
                   ((att_options (findPath_search g origin destination options))\<lparr>useFindRoute := Some True\<rparr>)))
                       then ''Movement: second attempt was not successful''
                       else ''Movement: second attempt was successful'')])"
  using assms by (subst findPath.simps) (simp add: Let_def findPath_forced)

lemma second_attempt_allowedRooms:
  "route options = None \<Longrightarrow>
   att_allowedRooms (findPath_search g origin destination
       ((att_options (findPath_search g origin destination options))\<lparr>useFindRoute := Some True\<rparr>))
   = fst (findRoute g (pos_roomName origin) (pos_roomName destination)
       ((att_options (findPath_search g origin destination options))\<lparr>useFindRoute := Some True\<rparr>))"
  by (cases "ignoreCreeps options"; cases "maxOps options"; cases "opt_range options";
      cases "terrainCosts options"; cases options)
     (simp_all add: findPath_search_def findPath_defaults_def Let_def)

text \<open>
  Claim C1. When the first search is incomplete, \<open>ensurePath\<close> was requested, the caller
  left \<open>useFindRoute\<close> unspecified and the rooms of origin and destination are at linear
  distance at most 2, \<open>findPath\<close> searches exactly once more, with \<open>useFindRoute\<close> forced
  on (so the rooms of \<open>findRoute\<close> restrict the search when the caller gave no route), and
  returns the result of that second search. In every other case it searches once and
  returns that result as it is, complete or not. The function is total: there is no
  branch that raises.
\<close>

theorem C1_findPath_retry:
  "let a = findPath_search g origin destination options;
       b = findPath_search g origin destination ((att_options a)\<lparr>useFindRoute := Some True\<rparr>);
       r = findPath g origin destination options
   in (incomplete (att_ret a) \<and> truthy (ensurePath options) \<and> useFindRoute options = None
         \<and> getRoomLinearDistance g (pos_roomName origin) (pos_roomName destination) \<le> 2 \<longrightarrow>
       fst r = att_ret b \<and> searches (snd r) = 2
         \<and> useFindRoute (att_options b) = Some True
         \<and> (route options = None \<longrightarrow>
              att_allowedRooms b
                = fst (findRoute g (pos_roomName origin) (pos_roomName destination)
                        ((att_options a)\<lparr>useFindRoute := Some True\<rparr>))))
    \<and> (\<not> (incomplete (att_ret a) \<and> truthy (ensurePath options) \<and> useFindRoute options = None
            \<and> getRoomLinearDistance g (pos_roomName origin) (pos_roomName destination) \<le> 2) \<longrightarrow>
       fst r = att_ret a \<and> searches (snd r) = 1)"
proof -
  let ?a = "findPath_search g origin destination options"
  let ?b = "findPath_search g origin destination ((att_options ?a)\<lparr>useFindRoute := Some True\<rparr>)"
  let ?c = "incomplete (att_ret ?a) \<and> truthy (ensurePath options) \<and> useFindRoute options = None
         \<and> getRoomLinearDistance g (pos_roomName origin) (pos_roomName destination) \<le> 2"
  have yes: "fst (findPath g origin destination options) = att_ret ?b
       \<and> searches (snd (findPath g origin destination options)) = 2
       \<and> useFindRoute (att_options ?b) = Some True" if ?c
  proof -
    from that have "retryNeeded ?a" by (simp add: retryNeeded_iff)
    then show ?thesis
      by (simp add: findPath_retry att_effects_searches att_options_fields)
  qed
  have no: "fst (findPath g origin destination options) = att_ret ?a
       \<and> searches (snd (findPath g origin destination options)) = 1" if "\<not> ?c"
  proof -
    from that have "\<not> retryNeeded ?a" by (simp add: retryNeeded_iff)
    then show ?thesis
      by (simp add: findPath_no_retry att_effects_searches)
  qed
  from yes no second_attempt_allowedRooms [of options g origin destination]
  show ?thesis unfolding Let_def by blast
qed

text \<open>Claim C1 at a search that fails unrestricted and succeeds restricted, with and without \<open>ensurePath\<close>.\<close>

theorem C1_witness:
  "fst (findPath retryGame (mkRoomPosition 5 5 ''W0N0'') (mkRoomPosition 45 45 ''W2N0'') ensureOptions)
     = \<lparr>path = [mkRoomPosition 6 5 ''W0N0'', mkRoomPosition 7 5 ''W0N0''], incomplete = False\<rparr>
   \<and> searches (snd (findPath retryGame (mkRoomPosition 5 5 ''W0N0'')
                      (mkRoomPosition 45 45 ''W2N0'') ensureOptions)) = 2
   \<and> fst (findPath retryGame (mkRoomPosition 5 5 ''W0N0'') (mkRoomPosition 45 45 ''W2N0'') noOptions)
     = \<lparr>path = [mkRoomPosition 6 6 ''W0N0''], incomplete = True\<rparr>
   \<and> searches (snd (findPath retryGame (mkRoomPosition 5 5 ''W0N0'')
                      (mkRoomPosition 45 45 ''W2N0'') noOptions)) = 1"
proof -
  let ?o = "mkRoomPosition 5 5 ''W0N0''"
  let ?d = "mkRoomPosition 45 45 ''W2N0''"
  let ?a = "findPath_search retryGame ?o ?d ensureOptions"
  let ?b = "findPath_search retryGame ?o ?d ((att_options ?a)\<lparr>useFindRoute := Some True\<rparr>)"
  let ?n = "findPath_search retryGame ?o ?d noOptions"
  have a: "att_ret ?a = \<lparr>path = [mkRoomPosition 6 6 ''W0N0''], incomplete = True\<rparr>"
    by (simp add: findPath_search_def findPath_defaults_def retryGame_def exampleGame_def
        ensureOptions_def noOptions_def retrySearch_def roomCallback_def shouldAvoid_def
        mkRoomPosition_def exampleCoord_def Let_def)
  have b: "att_ret ?b = \<lparr>path = [mkRoomPosition 6 5 ''W0N0'', mkRoomPosition 7 5 ''W0N0''],
                          incomplete = False\<rparr>"
    by (simp add: findPath_search_def findPath_defaults_def retryGame_def exampleGame_def
        ensureOptions_def noOptions_def retrySearch_def roomCallback_def shouldAvoid_def
        mkRoomPosition_def exampleCoord_def findRoute_def Let_def)
  have n: "att_ret ?n = \<lparr>path = [mkRoomPosition 6 6 ''W0N0''], incomplete = True\<rparr>"
    by (simp add: findPath_search_def findPath_defaults_def retryGame_def exampleGame_def
        noOptions_def retrySearch_def roomCallback_def shouldAvoid_def
        mkRoomPosition_def exampleCoord_def Let_def)
  have c: "incomplete (att_ret ?a) \<and> truthy (ensurePath ensureOptions)
           \<and> useFindRoute ensureOptions = None
           \<and> getRoomLinearDistance retryGame (pos_roomName ?o) (pos_roomName ?d) \<le> 2"
    by (simp add: a) (simp add: ensureOptions_def noOptions_def retryGame_def exampleGame_def
          mkRoomPosition_def exampleCoord_def)
  have nc: "\<not> (incomplete (att_ret ?n) \<and> truthy (ensurePath noOptions)
           \<and> useFindRoute noOptions = None
           \<and> getRoomLinearDistance retryGame (pos_roomName ?o) (pos_roomName ?d) \<le> 2)"
    by (simp add: noOptions_def)
  from C1_findPath_retry [of retryGame ?o ?d ensureOptions] c
  have 1: "fst (findPath retryGame ?o ?d ensureOptions) = att_ret ?b
           \<and> searches (snd (findPath retryGame ?o ?d ensureOptions)) = 2"
    unfolding Let_def by blast
  from C1_findPath_retry [of retryGame ?o ?d noOptions] nc
  have 2: "fst (findPath retryGame ?o ?d noOptions) = att_ret ?n
           \<and> searches (snd (findPath retryGame ?o ?d noOptions)) = 1"
    unfolding Let_def by blast
  from 1 2 b n show ?thesis by simp
qed

subsection \<open>isReachable\<close>

lemma clampByte_254: "clampByte 254 = 254"
  by (simp add: clampByte_def)

lemma isReachable_obstacle_set:
  "isReachable_obstacle ob m = bits_set m (pos_x (normalizePos ob)) (pos_y (normalizePos ob)) 254"
  by (cases ob) (simp_all add: isReachable_obstacle_def)

lemma fold_isReachable_obstacle_keep:
  "m t = 254 \<Longrightarrow> fold isReachable_obstacle obs m t = 254"
  by (induction obs arbitrary: m)
     (auto simp: isReachable_obstacle_set bits_set_def clampByte_254)

lemma fold_isReachable_obstacle_hit:
  "ob \<in> set obs \<Longrightarrow> inGrid (pos_x (normalizePos ob)) (pos_y (normalizePos ob)) \<Longrightarrow>
   fold isReachable_obstacle obs m (pos_x (normalizePos ob), pos_y (normalizePos ob)) = 254"
proof (induction obs arbitrary: m)
  case Nil
  then show ?case by simp
next
  case (Cons a obs)
  show ?case
  proof (cases "a = ob")
    case True
    have "isReachable_obstacle ob m (pos_x (normalizePos ob), pos_y (normalizePos ob)) = 254"
      using Cons.prems by (simp add: isReachable_obstacle_set bits_set_def clampByte_254)
    then show ?thesis
      using True by (simp add: fold_isReachable_obstacle_keep)
  next
    case False
    with Cons show ?thesis by simp
  qed
qed

lemma fold_isReachable_obstacle_miss:
  "\<forall>ob \<in> set obs. (pos_x (normalizePos ob), pos_y (normalizePos ob)) \<noteq> t \<Longrightarrow>
   fold isReachable_obstacle obs m t = m t"
  by (induction obs arbitrary: m) (auto simp: isReachable_obstacle_set bits_set_def)

lemma isReachable_matrix_obstacle:
  "ob \<in> set obs \<Longrightarrow> inGrid (pos_x (normalizePos ob)) (pos_y (normalizePos ob)) \<Longrightarrow>
   bits_get (isReachable_matrix obs) (pos_x (normalizePos ob)) (pos_y (normalizePos ob)) = Some 254"
  by (simp add: isReachable_matrix_def bits_get_def fold_isReachable_obstacle_hit)

lemma isReachable_path_blocked:
  "isReachable_path m ps =
     (\<not> (\<exists>pos \<in> set ps. \<exists>c. bits_get m (pos_x pos) (pos_y pos) = Some c \<and> c > 100))"
  by (induction ps) (auto split: option.splits)

lemma isReachable_path_iff:
  "isReachable_path m ps =
     (\<forall>pos \<in> set ps. \<forall>c. bits_get m (pos_x pos) (pos_y pos) = Some c \<longrightarrow> c \<le> 100)"
  by (induction ps) (auto split: option.splits)

text \<open>
  Claim C7. \<open>isReachable\<close> logs an error and returns false when start and end are in
  different rooms; returns false when the single-room search is incomplete; returns
  false when a tile of the returned path has a matrix cost above 100; the obstacle tiles
  are seeded with cost 254, so a path through an obstacle tile does not count; and it
  returns true otherwise.
\<close>

theorem C7_isReachable:
  "(pos_roomName startPos \<noteq> pos_roomName endPos \<longrightarrow>
      isReachable g startPos endPos obs options
        = (False, [LogError ''isReachable() should only be used within a single room!'']))
   \<and> (pos_roomName startPos = pos_roomName endPos
        \<and> incomplete (isReachable_search g startPos endPos obs options) \<longrightarrow>
      fst (isReachable g startPos endPos obs options) = False)
   \<and> (pos_roomName startPos = pos_roomName endPos
        \<and> (\<exists>pos \<in> set (path (isReachable_search g startPos endPos obs options)).
              \<exists>c. bits_get (isReachable_matrix obs) (pos_x pos) (pos_y pos) = Some c \<and> c > 100) \<longrightarrow>
      fst (isReachable g startPos endPos obs options) = False)
   \<and> (\<forall>ob \<in> set obs. inGrid (pos_x (normalizePos ob)) (pos_y (normalizePos ob)) \<longrightarrow>
        bits_get (isReachable_matrix obs) (pos_x (normalizePos ob)) (pos_y (normalizePos ob))
          = Some 254)
   \<and> (pos_roomName startPos = pos_roomName endPos
        \<and> (\<exists>pos \<in> set (path (isReachable_search g startPos endPos obs options)).
              \<exists>ob \<in> set obs. pos_x pos = pos_x (normalizePos ob) \<and> pos_y pos = pos_y (normalizePos ob)
                \<and> inGrid (pos_x pos) (pos_y pos)) \<longrightarrow>
      fst (isReachable g startPos endPos obs options) = False)
   \<and> (pos_roomName startPos = pos_roomName endPos
        \<and> \<not> incomplete (isReachable_search g startPos endPos obs options)
        \<and> (\<forall>pos \<in> set (path (isReachable_search g startPos endPos obs options)).
              \<forall>c. bits_get (isReachable_matrix obs) (pos_x pos) (pos_y pos) = Some c \<longrightarrow> c \<le> 100) \<longrightarrow>
      fst (isReachable g startPos endPos obs options) = True)"
proof (intro conjI impI ballI)
  assume "pos_roomName startPos \<noteq> pos_roomName endPos"
  then show "isReachable g startPos endPos obs options
        = (False, [LogError ''isReachable() should only be used within a single room!''])"
    by (simp add: isReachable_def)
next
  assume "pos_roomName startPos = pos_roomName endPos
        \<and> incomplete (isReachable_search g startPos endPos obs options)"
  then show "fst (isReachable g startPos endPos obs options) = False"
    by (simp add: isReachable_def)
next
  assume "pos_roomName startPos = pos_roomName endPos
        \<and> (\<exists>pos \<in> set (path (isReachable_search g startPos endPos obs options)).
              \<exists>c. bits_get (isReachable_matrix obs) (pos_x pos) (pos_y pos) = Some c \<and> c > 100)"
  then obtain pos c where "pos \<in> set (path (isReachable_search g startPos endPos obs options))"
    and "bits_get (isReachable_matrix obs) (pos_x pos) (pos_y pos) = Some c" and "c > 100"
    and r: "pos_roomName startPos = pos_roomName endPos"
    by blast
  then have "\<not> isReachable_path (isReachable_matrix obs)
                   (path (isReachable_search g startPos endPos obs options))"
    unfolding isReachable_path_blocked by blast
  with r show "fst (isReachable g startPos endPos obs options) = False"
    by (simp add: isReachable_def Let_def)
next
  fix ob
  assume "ob \<in> set obs" "inGrid (pos_x (normalizePos ob)) (pos_y (normalizePos ob))"
  then show "bits_get (isReachable_matrix obs) (pos_x (normalizePos ob)) (pos_y (normalizePos ob))
          = Some 254"
    by (rule isReachable_matrix_obstacle)
next
  assume a: "pos_roomName startPos = pos_roomName endPos
        \<and> (\<exists>pos \<in> set (path (isReachable_search g startPos endPos obs options)).
              \<exists>ob \<in> set obs. pos_x pos = pos_x (normalizePos ob) \<and> pos_y pos = pos_y (normalizePos ob)
                \<and> inGrid (pos_x pos) (pos_y pos))"
  then obtain pos ob where p: "pos \<in> set (path (isReachable_search g startPos endPos obs options))"
    and o: "ob \<in> set obs" and e: "pos_x pos = pos_x (normalizePos ob)" "pos_y pos = pos_y (normalizePos ob)"
    and i: "inGrid (pos_x pos) (pos_y pos)"
    by blast
  from o e i have "bits_get (isReachable_matrix obs) (pos_x pos) (pos_y pos) = Some 254"
    using isReachable_matrix_obstacle [of ob obs] by simp
  with p have "\<not> isReachable_path (isReachable_matrix obs)
                   (path (isReachable_search g startPos endPos obs options))"
    unfolding isReachable_path_blocked by force
  with a show "fst (isReachable g startPos endPos obs options) = False"
    by (simp add: isReachable_def Let_def)
next
  assume "pos_roomName startPos = pos_roomName endPos
        \<and> \<not> incomplete (isReachable_search g startPos endPos obs options)
        \<and> (\<forall>pos \<in> set (path (isReachable_search g startPos endPos obs options)).
              \<forall>c. bits_get (isReachable_matrix obs) (pos_x pos) (pos_y pos) = Some c \<longrightarrow> c \<le> 100)"
  then show "fst (isReachable g startPos endPos obs options) = True"
    by (simp add: isReachable_def Let_def isReachable_path_iff)
qed

text \<open>Claim C7 at a call across rooms, an incomplete search, a path through the obstacle and a path around it.\<close>

theorem C7_witness:
  "isReachable exampleGame (mkRoomPosition 5 5 ''W0N0'') (mkRoomPosition 9 9 ''W1N0'') [] noOptions
     = (False, [LogError ''isReachable() should only be used within a single room!''])
   \<and> fst (isReachable (exampleGame\<lparr>PathFinder_search := constSearch [] True\<rparr>)
            (mkRoomPosition 5 5 ''W0N0'') (mkRoomPosition 9 9 ''W0N0'') [] noOptions) = False
   \<and> bits_get (isReachable_matrix [IsPos (mkRoomPosition 7 7 ''W0N0'')]) 7 7 = Some 254
   \<and> fst (isReachable
            (exampleGame\<lparr>PathFinder_search :=
               constSearch [mkRoomPosition 6 6 ''W0N0'', mkRoomPosition 7 7 ''W0N0'',
                            mkRoomPosition 8 8 ''W0N0''] False\<rparr>)
            (mkRoomPosition 5 5 ''W0N0'') (mkRoomPosition 9 9 ''W0N0'')
            [IsPos (mkRoomPosition 7 7 ''W0N0'')] noOptions) = False
   \<and> fst (isReachable
            (exampleGame\<lparr>PathFinder_search :=
               constSearch [mkRoomPosition 6 6 ''W0N0'', mkRoomPosition 7 6 ''W0N0'',
                            mkRoomPosition 8 7 ''W0N0'', mkRoomPosition 8 8 ''W0N0''] False\<rparr>)
            (mkRoomPosition 5 5 ''W0N0'') (mkRoomPosition 9 9 ''W0N0'')
            [IsPos (mkRoomPosition 7 7 ''W0N0'')] noOptions) = True"
proof -
  let ?s = "mkRoomPosition 5 5 ''W0N0''"
  let ?e = "mkRoomPosition 9 9 ''W0N0''"
  let ?ob = "IsPos (mkRoomPosition 7 7 ''W0N0'')"
  let ?g1 = "exampleGame\<lparr>PathFinder_search := constSearch [] True\<rparr>"
  let ?g2 = "exampleGame\<lparr>PathFinder_search :=
               constSearch [mkRoomPosition 6 6 ''W0N0'', mkRoomPosition 7 7 ''W0N0'',
                            mkRoomPosition 8 8 ''W0N0''] False\<rparr>"
  let ?g3 = "exampleGame\<lparr>PathFinder_search :=
               constSearch [mkRoomPosition 6 6 ''W0N0'', mkRoomPosition 7 6 ''W0N0'',
                            mkRoomPosition 8 7 ''W0N0'', mkRoomPosition 8 8 ''W0N0''] False\<rparr>"
  have "pos_roomName ?s \<noteq> pos_roomName (mkRoomPosition 9 9 ''W1N0'')"
    by (simp add: mkRoomPosition_def)
  with C7_isReachable [of ?s "mkRoomPosition 9 9 ''W1N0''" exampleGame "[]" noOptions]
  have 1: "isReachable exampleGame ?s (mkRoomPosition 9 9 ''W1N0'') [] noOptions
     = (False, [LogError ''isReachable() should only be used within a single room!''])"
    by blast
  have "pos_roomName ?s = pos_roomName ?e \<and> incomplete (isReachable_search ?g1 ?s ?e [] noOptions)"
    by (simp add: mkRoomPosition_def isReachable_search_def constSearch_def)
  with C7_isReachable [of ?s ?e ?g1 "[]" noOptions]
  have 2: "fst (isReachable ?g1 ?s ?e [] noOptions) = False"
    by blast
  have "?ob \<in> set [?ob] \<and> inGrid (pos_x (normalizePos ?ob)) (pos_y (normalizePos ?ob))"
    by (simp add: mkRoomPosition_def inGrid_def)
  with C7_isReachable [of ?s ?e ?g2 "[?ob]" noOptions]
  have "bits_get (isReachable_matrix [?ob]) (pos_x (normalizePos ?ob)) (pos_y (normalizePos ?ob))
          = Some 254"
    by blast
  then have 3: "bits_get (isReachable_matrix [?ob]) 7 7 = Some 254"
    by (simp add: mkRoomPosition_def)
  have "pos_roomName ?s = pos_roomName ?e
        \<and> (\<exists>pos \<in> set (path (isReachable_search ?g2 ?s ?e [?ob] noOptions)).
              \<exists>ob \<in> set [?ob]. pos_x pos = pos_x (normalizePos ob) \<and> pos_y pos = pos_y (normalizePos ob)
                \<and> inGrid (pos_x pos) (pos_y pos))"
    by (simp add: mkRoomPosition_def isReachable_search_def constSearch_def inGrid_def)
  with C7_isReachable [of ?s ?e ?g2 "[?ob]" noOptions]
  have 4: "fst (isReachable ?g2 ?s ?e [?ob] noOptions) = False"
    by blast
  have "pos_roomName ?s = pos_roomName ?e
        \<and> (\<exists>pos \<in> set (path (isReachable_search ?g2 ?s ?e [?ob] noOptions)).
              \<exists>c. bits_get (isReachable_matrix [?ob]) (pos_x pos) (pos_y pos) = Some c \<and> c > 100)"
    by (simp add: mkRoomPosition_def isReachable_search_def constSearch_def inGrid_def
          isReachable_matrix_def isReachable_obstacle_def bits_set_def bits_get_def bits_new_def
          clampByte_def)
  with C7_isReachable [of ?s ?e ?g2 "[?ob]" noOptions]
  have 4: "fst (isReachable ?g2 ?s ?e [?ob] noOptions) = False"
    by blast
  have "pos_roomName ?s = pos_roomName ?e
        \<and> \<not> incomplete (isReachable_search ?g3 ?s ?e [?ob] noOptions)
        \<and> (\<forall>pos \<in> set (path (isReachable_search ?g3 ?s ?e [?ob] noOptions)).
              \<forall>c. bits_get (isReachable_matrix [?ob]) (pos_x pos) (pos_y pos) = Some c \<longrightarrow> c \<le> 100)"
    by (simp add: mkRoomPosition_def isReachable_search_def constSearch_def inGrid_def
          isReachable_matrix_def isReachable_obstacle_def bits_set_def bits_get_def bits_new_def)
  with C7_isReachable [of ?s ?e ?g3 "[?ob]" noOptions]
  have 5: "fst (isReachable ?g3 ?s ?e [?ob] noOptions) = True"
    by blast
  from 1 2 3 4 5 show ?thesis by blast
qed

subsection \<open>distance and weightedDistance\<close>

lemma examplePosName_a [simp]: "examplePosName (mkRoomPosition 5 5 ''W0N0'') = ''W0N0:xxxxx:yyyyy''"
  by (simp add: examplePosName_def mkRoomPosition_def eval_nat_numeral)

lemma examplePosName_b [simp]:
  "examplePosName (mkRoomPosition 9 9 ''W1N0'') = ''W1N0:xxxxxxxxx:yyyyyyyyy''"
  by (simp add: examplePosName_def mkRoomPosition_def eval_nat_numeral)

lemma sort_pair: "sort [a, b] = (if a \<le> b then [a, b] else [b, a])"
  by simp

lemma sort_pair_commute: "sort [a, b] = sort [b, (a::'a::linorder)]"
  by (auto simp: sort_pair)

lemma table_get_ensure [simp]: "table_get (table_ensure t k1) k1' k2 = table_get t k1' k2"
  by (simp add: table_get_def table_ensure_def split: option.splits)

lemma table_ensure_present:
  "table_get t k1 k2 = Some v \<Longrightarrow> table_ensure t k1 = t"
  by (simp add: table_get_def table_ensure_def split: option.splits)

lemma table_get_put_ensure [simp]:
  "table_get (table_put (table_ensure t k1) k1 k2 v) k1 k2 = Some v"
  by (simp add: table_get_def table_put_def table_ensure_def split: option.splits)

lemma falsy_iff: "falsy v = (v = None \<or> v = Some 0)"
  by (cases v) auto

lemma distance_hit:
  "\<not> falsy (table_get (distances mem) (sort [posName g a, posName g b] ! 0)
              (sort [posName g a, posName g b] ! 1)) \<Longrightarrow>
   distance g mem a b
     = (table_get (distances mem) (sort [posName g a, posName g b] ! 0)
          (sort [posName g a, posName g b] ! 1), mem, [])"
proof -
  assume h: "\<not> falsy (table_get (distances mem) (sort [posName g a, posName g b] ! 0)
              (sort [posName g a, posName g b] ! 1))"
  then obtain v where v: "table_get (distances mem) (sort [posName g a, posName g b] ! 0)
              (sort [posName g a, posName g b] ! 1) = Some v"
    by (cases "table_get (distances mem) (sort [posName g a, posName g b] ! 0)
              (sort [posName g a, posName g b] ! 1)") auto
  have "table_ensure (distances mem) (sort [posName g a, posName g b] ! 0) = distances mem"
    by (rule table_ensure_present [OF v])
  with h show ?thesis
    unfolding distance_def Let_def by simp
qed

lemma distance_miss_value:
  "falsy (table_get (distances mem) (sort [posName g a, posName g b] ! 0)
              (sort [posName g a, posName g b] ! 1)) \<Longrightarrow>
   fst (distance g mem a b)
     = (if incomplete (fst (findShortestPath g a b noOptions))
        then table_get (distances mem) (sort [posName g a, posName g b] ! 0)
               (sort [posName g a, posName g b] ! 1)
        else Some (length (path (fst (findShortestPath g a b noOptions)))))"
  unfolding distance_def Let_def by simp

lemma distance_miss_table:
  "falsy (table_get (distances mem) (sort [posName g a, posName g b] ! 0)
              (sort [posName g a, posName g b] ! 1)) \<Longrightarrow>
   distances (fst (snd (distance g mem a b)))
     = (if incomplete (fst (findShortestPath g a b noOptions))
        then table_ensure (distances mem) (sort [posName g a, posName g b] ! 0)
        else table_put (table_ensure (distances mem) (sort [posName g a, posName g b] ! 0))
               (sort [posName g a, posName g b] ! 0) (sort [posName g a, posName g b] ! 1)
               (length (path (fst (findShortestPath g a b noOptions)))))"
  unfolding distance_def Let_def by simp

lemma distance_weighted_untouched:
  "weightedDistances (fst (snd (distance g mem a b))) = weightedDistances mem"
  unfolding distance_def Let_def by simp

lemma distance_incomplete_no_store:
  "falsy (table_get (distances mem) (sort [posName g a, posName g b] ! 0)
              (sort [posName g a, posName g b] ! 1)) \<Longrightarrow>
   incomplete (fst (findShortestPath g a b noOptions)) \<Longrightarrow>
   table_get (distances (fst (snd (distance g mem a b)))) k1 k2 = table_get (distances mem) k1 k2"
  by (simp add: distance_miss_table)

lemma weightedDistance_miss:
  "falsy (table_get (weightedDistances mem) (posName g (if posName g a < posName g b then a else b))
            (posName g (if posName g a < posName g b then b else a))) \<Longrightarrow>
   fst (weightedDistance g mem a b)
     = Some (fst (calculatePathWeight g (if posName g a < posName g b then a else b)
                   (if posName g a < posName g b then b else a) noOptions))"
  unfolding weightedDistance_def Let_def by simp

lemma weightedDistance_sym:
  assumes "posName g a = posName g b \<Longrightarrow> a = b"
  shows "weightedDistance g mem a b = weightedDistance g mem b a"
proof (cases "posName g a = posName g b")
  case True
  with assms show ?thesis by simp
next
  case False
  then have "posName g a < posName g b \<or> posName g b < posName g a"
    by auto
  then show ?thesis
  proof
    assume h: "posName g a < posName g b"
    then have "\<not> posName g b < posName g a" by (simp add: not_less less_imp_le)
    with h show ?thesis unfolding weightedDistance_def by simp
  next
    assume h: "posName g b < posName g a"
    then have "\<not> posName g a < posName g b" by (simp add: not_less less_imp_le)
    with h show ?thesis unfolding weightedDistance_def by simp
  qed
qed

lemma findPath_without_ensurePath:
  "\<not> truthy (ensurePath options) \<Longrightarrow>
   findPath g origin destination options
     = (att_ret (findPath_search g origin destination options),
        att_effects (findPath_search g origin destination options))"
  by (rule findPath_no_retry) (simp add: retryNeeded_iff)

lemma distance_returns_slot:
  "table_get (distances (fst (snd (distance g mem a b))))
     (sort [posName g a, posName g b] ! 0) (sort [posName g a, posName g b] ! 1)
   = fst (distance g mem a b)"
  unfolding distance_def Let_def by (simp del: sort_key_simps)

lemma distance_key_rev:
  "sort [posName g b, posName g a] = sort [posName g a, posName g b]"
  by (rule sort_pair_commute)

lemma distance_value_not_falsy:
  assumes "fst (distance g mem a b) = Some v" "v \<noteq> 0"
  shows "\<not> falsy (table_get (distances (fst (snd (distance g mem a b))))
     (sort [posName g b, posName g a] ! 0) (sort [posName g b, posName g a] ! 1))"
  using assms distance_returns_slot [of g mem a b]
  unfolding distance_key_rev [of g b a]
  by (simp del: sort_key_simps)

lemma distance_sym_hit:
  assumes "\<not> falsy (table_get (distances mem) (sort [posName g a, posName g b] ! 0)
              (sort [posName g a, posName g b] ! 1))"
  shows "distance g mem a b = distance g mem b a"
proof -
  from assms have "\<not> falsy (table_get (distances mem) (sort [posName g b, posName g a] ! 0)
              (sort [posName g b, posName g a] ! 1))"
    unfolding distance_key_rev [of g b a] .
  then have "distance g mem b a
     = (table_get (distances mem) (sort [posName g b, posName g a] ! 0)
          (sort [posName g b, posName g a] ! 1), mem, [])"
    by (rule distance_hit)
  then have "distance g mem b a
     = (table_get (distances mem) (sort [posName g a, posName g b] ! 0)
          (sort [posName g a, posName g b] ! 1), mem, [])"
    unfolding distance_key_rev [of g b a] .
  with distance_hit [OF assms] show ?thesis by (simp del: sort_key_simps)
qed

lemma distance_sym_search:
  assumes i: "incomplete (fst (findShortestPath g a b noOptions))
             = incomplete (fst (findShortestPath g b a noOptions))"
    and l: "length (path (fst (findShortestPath g a b noOptions)))
             = length (path (fst (findShortestPath g b a noOptions)))"
  shows "fst (distance g mem a b) = fst (distance g mem b a)
       \<and> fst (snd (distance g mem a b)) = fst (snd (distance g mem b a))"
  using i l unfolding distance_def Let_def distance_key_rev [of g b a]
  by (simp del: sort_key_simps)

lemma distance_then_reversed:
  assumes "fst (distance g mem a b) = Some v" "v \<noteq> 0"
  shows "fst (distance g (fst (snd (distance g mem a b))) b a) = Some v"
proof -
  let ?m = "fst (snd (distance g mem a b))"
  have "\<not> falsy (table_get (distances ?m)
     (sort [posName g b, posName g a] ! 0) (sort [posName g b, posName g a] ! 1))"
    by (rule distance_value_not_falsy [OF assms])
  then have "distance g ?m b a = (table_get (distances ?m)
     (sort [posName g b, posName g a] ! 0) (sort [posName g b, posName g a] ! 1), ?m, [])"
    by (rule distance_hit)
  then have "fst (distance g ?m b a) = table_get (distances ?m)
     (sort [posName g a, posName g b] ! 0) (sort [posName g a, posName g b] ! 1)"
    unfolding distance_key_rev [of g b a] by (simp del: sort_key_simps)
  also have "\<dots> = fst (distance g mem a b)"
    by (rule distance_returns_slot)
  finally show ?thesis using assms by simp
qed

text \<open>
  Claim C5, as the code has it. Both functions key their table by the sorted pair of the
  position names, so either order of the arguments addresses the same slot.
  \<open>weightedDistance\<close> also searches in the sorted order, so it is symmetric in every
  state (positions with one name being one position). \<open>distance\<close> searches in the order
  of its arguments: it is symmetric when the slot holds a non-zero value, and when the
  shortest-path search has the same completion and path length in both directions; and
  after \<open>distance a b\<close> returned a non-zero number, \<open>distance b a\<close> returns that number.
\<close>

theorem C5_distance_symmetry:
  "sort [posName g a, posName g b] = sort [posName g b, posName g a]
   \<and> ((posName g a = posName g b \<longrightarrow> a = b) \<longrightarrow>
        weightedDistance g mem a b = weightedDistance g mem b a)
   \<and> (\<not> falsy (table_get (distances mem) (sort [posName g a, posName g b] ! 0)
                 (sort [posName g a, posName g b] ! 1)) \<longrightarrow>
        distance g mem a b = distance g mem b a)
   \<and> (incomplete (fst (findShortestPath g a b noOptions))
         = incomplete (fst (findShortestPath g b a noOptions))
       \<and> length (path (fst (findShortestPath g a b noOptions)))
         = length (path (fst (findShortestPath g b a noOptions))) \<longrightarrow>
        fst (distance g mem a b) = fst (distance g mem b a)
        \<and> fst (snd (distance g mem a b)) = fst (snd (distance g mem b a)))
   \<and> (fst (distance g mem a b) = Some v \<and> v \<noteq> 0 \<longrightarrow>
        fst (distance g (fst (snd (distance g mem a b))) b a) = Some v)"
  using sort_pair_commute [of "posName g a" "posName g b"]
    weightedDistance_sym [of g a b mem] distance_sym_hit [of mem g a b]
    distance_sym_search [of g a b mem] distance_then_reversed [of g mem a b v]
  by blast


lemma findShortestPath_result:
  "fst (findShortestPath g a b noOptions)
     = att_ret (findPath_search g a b
         (noOptions\<lparr>ignoreCreeps := Some True, opt_range := Some 1, direct := Some True\<rparr>))"
  by (simp add: findShortestPath_def Let_def noOptions_def findPath_without_ensurePath)

lemma att_ret_const:
  "PathFinder_search g = (\<lambda>origin goals opts. f origin) \<Longrightarrow>
   att_ret (findPath_search g a b options) = f a"
  by (simp add: findPath_search_def Let_def)

lemma directed_ab:
  "fst (findShortestPath directedGame (mkRoomPosition 5 5 ''W0N0'') (mkRoomPosition 9 9 ''W1N0'') noOptions)
   = \<lparr>path = [mkRoomPosition 6 6 ''W0N0'', mkRoomPosition 7 7 ''W0N0'',
              mkRoomPosition 8 8 ''W0N0''], incomplete = False\<rparr>"
  unfolding findShortestPath_result
  by (simp add: findPath_search_def Let_def directedGame_def directedSearch_def mkRoomPosition_def)

lemma directed_ba:
  "fst (findShortestPath directedGame (mkRoomPosition 9 9 ''W1N0'') (mkRoomPosition 5 5 ''W0N0'') noOptions)
   = \<lparr>path = [mkRoomPosition 8 9 ''W0N0'', mkRoomPosition 7 9 ''W0N0'',
                    mkRoomPosition 6 8 ''W0N0'', mkRoomPosition 5 7 ''W0N0'',
                    mkRoomPosition 5 6 ''W0N0''], incomplete = False\<rparr>"
  unfolding findShortestPath_result
  by (simp add: findPath_search_def Let_def directedGame_def directedSearch_def mkRoomPosition_def)

lemma oneWay_ab:
  "fst (findShortestPath oneWayGame (mkRoomPosition 5 5 ''W0N0'') (mkRoomPosition 9 9 ''W1N0'') noOptions)
   = \<lparr>path = [mkRoomPosition 6 6 ''W0N0''], incomplete = True\<rparr>"
  unfolding findShortestPath_result
  by (simp add: findPath_search_def Let_def oneWayGame_def oneWaySearch_def mkRoomPosition_def)

lemma oneWay_ba:
  "fst (findShortestPath oneWayGame (mkRoomPosition 9 9 ''W1N0'') (mkRoomPosition 5 5 ''W0N0'') noOptions)
   = \<lparr>path = [mkRoomPosition 8 9 ''W0N0'', mkRoomPosition 7 9 ''W0N0'',
                    mkRoomPosition 6 8 ''W0N0'', mkRoomPosition 5 7 ''W0N0'',
                    mkRoomPosition 5 6 ''W0N0''], incomplete = False\<rparr>"
  unfolding findShortestPath_result
  by (simp add: findPath_search_def Let_def oneWayGame_def oneWaySearch_def mkRoomPosition_def)

lemma posName_games [simp]:
  "posName directedGame = examplePosName" "posName oneWayGame = examplePosName"
  "posName partialGame = examplePosName" "posName exampleGame = examplePosName"
  by (simp_all add: directedGame_def oneWayGame_def partialGame_def exampleGame_def)

lemma falsy_empty [simp]: "falsy (table_get (distances emptyMemory) k1 k2)"
  "falsy (table_get (weightedDistances emptyMemory) k1 k2)"
  by (simp_all add: emptyMemory_def table_get_def)

text \<open>
  Claim C5 as stated fails for \<open>distance\<close> on an empty slot: with a search that finds 3
  steps one way and 5 the other the two orders differ, and after an incomplete search
  one way (nothing stored, \<open>undefined\<close> returned) the reversed call searches again and
  returns 5.
\<close>

theorem C5_counterexample:
  "fst (distance directedGame emptyMemory (mkRoomPosition 5 5 ''W0N0'') (mkRoomPosition 9 9 ''W1N0''))
     = Some 3
   \<and> fst (distance directedGame emptyMemory (mkRoomPosition 9 9 ''W1N0'') (mkRoomPosition 5 5 ''W0N0''))
     = Some 5
   \<and> fst (distance oneWayGame emptyMemory (mkRoomPosition 5 5 ''W0N0'') (mkRoomPosition 9 9 ''W1N0''))
     = None
   \<and> fst (distance oneWayGame
            (fst (snd (distance oneWayGame emptyMemory (mkRoomPosition 5 5 ''W0N0'')
                         (mkRoomPosition 9 9 ''W1N0''))))
            (mkRoomPosition 9 9 ''W1N0'') (mkRoomPosition 5 5 ''W0N0''))
     = Some 5"
proof -
  let ?a = "mkRoomPosition 5 5 ''W0N0''"
  let ?b = "mkRoomPosition 9 9 ''W1N0''"
  have 1: "fst (distance directedGame emptyMemory ?a ?b) = Some 3"
    by (simp add: distance_miss_value directed_ab del: sort_key_simps)
  have 2: "fst (distance directedGame emptyMemory ?b ?a) = Some 5"
    by (simp add: distance_miss_value directed_ba del: sort_key_simps)
  have 3: "fst (distance oneWayGame emptyMemory ?a ?b) = None"
    by (simp add: distance_miss_value oneWay_ab del: sort_key_simps)
       (simp add: emptyMemory_def table_get_def)
  have t: "distances (fst (snd (distance oneWayGame emptyMemory ?a ?b)))
             = [''W0N0:xxxxx:yyyyy'' \<mapsto> Map.empty]"
    by (simp add: distance_miss_table oneWay_ab del: sort_key_simps)
       (simp add: emptyMemory_def table_ensure_def)
  have f: "falsy (table_get (distances (fst (snd (distance oneWayGame emptyMemory ?a ?b))))
              (sort [posName oneWayGame ?b, posName oneWayGame ?a] ! 0)
              (sort [posName oneWayGame ?b, posName oneWayGame ?a] ! 1))"
    unfolding t by (simp add: table_get_def)
  have 4: "fst (distance oneWayGame (fst (snd (distance oneWayGame emptyMemory ?a ?b))) ?b ?a)
             = Some 5"
    using distance_miss_value [OF f] by (simp add: oneWay_ba)
  from 1 2 3 4 show ?thesis by blast
qed

text \<open>
  Claim C3 at a failing input. The search from (5,5) in W0N0 to (9,9) in W1N0 is
  incomplete, with a partial path of three tiles. \<open>weightedDistance\<close> stores the weight 3
  of the partial path in its table all the same and returns it, while \<open>distance\<close>, at
  the same incomplete search, stores nothing and returns \<open>undefined\<close>.
\<close>

theorem C3_weightedDistance_stores_incomplete:
  "incomplete (fst (findPath partialGame (mkRoomPosition 5 5 ''W0N0'') (mkRoomPosition 9 9 ''W1N0'')
                      (noOptions\<lparr>opt_range := Some 1\<rparr>)))
   \<and> fst (weightedDistance partialGame emptyMemory (mkRoomPosition 5 5 ''W0N0'')
            (mkRoomPosition 9 9 ''W1N0'')) = Some 3
   \<and> table_get (weightedDistances (fst (snd (weightedDistance partialGame emptyMemory
                   (mkRoomPosition 5 5 ''W0N0'') (mkRoomPosition 9 9 ''W1N0'')))))
        ''W0N0:xxxxx:yyyyy'' ''W1N0:xxxxxxxxx:yyyyyyyyy'' = Some 3
   \<and> incomplete (fst (findShortestPath partialGame (mkRoomPosition 5 5 ''W0N0'')
                        (mkRoomPosition 9 9 ''W1N0'') noOptions))
   \<and> fst (distance partialGame emptyMemory (mkRoomPosition 5 5 ''W0N0'')
            (mkRoomPosition 9 9 ''W1N0'')) = None
   \<and> table_get (distances (fst (snd (distance partialGame emptyMemory
                   (mkRoomPosition 5 5 ''W0N0'') (mkRoomPosition 9 9 ''W1N0'')))))
        ''W0N0:xxxxx:yyyyy'' ''W1N0:xxxxxxxxx:yyyyyyyyy'' = None"
proof -
  let ?a = "mkRoomPosition 5 5 ''W0N0''"
  let ?b = "mkRoomPosition 9 9 ''W1N0''"
  have p: "findPath partialGame ?a ?b (noOptions\<lparr>opt_range := Some 1\<rparr>)
            = (\<lparr>path = [mkRoomPosition 6 6 ''W0N0'', mkRoomPosition 7 7 ''W0N0'',
                        mkRoomPosition 8 8 ''W0N0''], incomplete = True\<rparr>, [PathFinderSearch])"
    by (simp add: findPath_without_ensurePath noOptions_def)
       (simp add: findPath_search_def findPath_defaults_def Let_def partialGame_def partialSearch_def
          exampleGame_def exampleCoord_def mkRoomPosition_def)
  have w: "calculatePathWeight partialGame ?a ?b noOptions = (3, [PathFinderSearch])"
    using p by (simp add: calculatePathWeight_def Let_def noOptions_def tileWeight_def
          partialGame_def exampleGame_def mkRoomPosition_def)
  have 1: "incomplete (fst (findPath partialGame ?a ?b (noOptions\<lparr>opt_range := Some 1\<rparr>)))"
    by (simp add: p)
  have wd: "weightedDistance partialGame emptyMemory ?a ?b
          = (Some 3, emptyMemory\<lparr>weightedDistances :=
               [''W0N0:xxxxx:yyyyy'' \<mapsto> [''W1N0:xxxxxxxxx:yyyyyyyyy'' \<mapsto> 3]]\<rparr>, [PathFinderSearch])"
    by (simp add: weightedDistance_def Let_def w)
       (simp add: emptyMemory_def table_ensure_def table_put_def)
  have s: "fst (findShortestPath partialGame ?a ?b noOptions)
            = \<lparr>path = [mkRoomPosition 6 6 ''W0N0'', mkRoomPosition 7 7 ''W0N0'',
                        mkRoomPosition 8 8 ''W0N0''], incomplete = True\<rparr>"
    unfolding findShortestPath_result
    by (simp add: findPath_search_def Let_def partialGame_def partialSearch_def)
  have 5: "fst (distance partialGame emptyMemory ?a ?b) = None"
    by (simp add: distance_miss_value s del: sort_key_simps)
       (simp add: emptyMemory_def table_get_def)
  have 6: "table_get (distances (fst (snd (distance partialGame emptyMemory ?a ?b))))
        ''W0N0:xxxxx:yyyyy'' ''W1N0:xxxxxxxxx:yyyyyyyyy'' = None"
    by (simp add: distance_miss_table s del: sort_key_simps)
       (simp add: emptyMemory_def table_get_def)
  from 1 wd s 5 6 show ?thesis by (simp add: table_get_def)
qed

text \<open>Claim C5 at two positions in neighbouring rooms: an empty and a filled slot, a symmetric and a directed search.\<close>

theorem C5_witness:
  "weightedDistance directedGame emptyMemory (mkRoomPosition 5 5 ''W0N0'') (mkRoomPosition 9 9 ''W1N0'')
     = weightedDistance directedGame emptyMemory (mkRoomPosition 9 9 ''W1N0'') (mkRoomPosition 5 5 ''W0N0'')
   \<and> distance directedGame
        (emptyMemory\<lparr>distances := [''W0N0:xxxxx:yyyyy'' \<mapsto> [''W1N0:xxxxxxxxx:yyyyyyyyy'' \<mapsto> 4]]\<rparr>)
        (mkRoomPosition 5 5 ''W0N0'') (mkRoomPosition 9 9 ''W1N0'')
     = distance directedGame
        (emptyMemory\<lparr>distances := [''W0N0:xxxxx:yyyyy'' \<mapsto> [''W1N0:xxxxxxxxx:yyyyyyyyy'' \<mapsto> 4]]\<rparr>)
        (mkRoomPosition 9 9 ''W1N0'') (mkRoomPosition 5 5 ''W0N0'')
   \<and> fst (distance exampleGame emptyMemory (mkRoomPosition 5 5 ''W0N0'') (mkRoomPosition 9 9 ''W1N0''))
     = fst (distance exampleGame emptyMemory (mkRoomPosition 9 9 ''W1N0'') (mkRoomPosition 5 5 ''W0N0''))
   \<and> fst (distance directedGame
            (fst (snd (distance directedGame emptyMemory (mkRoomPosition 5 5 ''W0N0'')
                         (mkRoomPosition 9 9 ''W1N0''))))
            (mkRoomPosition 9 9 ''W1N0'') (mkRoomPosition 5 5 ''W0N0'')) = Some 3"
proof -
  let ?a = "mkRoomPosition 5 5 ''W0N0''"
  let ?b = "mkRoomPosition 9 9 ''W1N0''"
  let ?m = "emptyMemory\<lparr>distances := [''W0N0:xxxxx:yyyyy'' \<mapsto> [''W1N0:xxxxxxxxx:yyyyyyyyy'' \<mapsto> 4]]\<rparr>"
  have "posName directedGame ?a = posName directedGame ?b \<longrightarrow> ?a = ?b"
    by simp
  with C5_distance_symmetry [of directedGame ?a ?b emptyMemory 0]
  have 1: "weightedDistance directedGame emptyMemory ?a ?b
             = weightedDistance directedGame emptyMemory ?b ?a"
    by blast
  have "\<not> falsy (table_get (distances ?m) (sort [posName directedGame ?a, posName directedGame ?b] ! 0)
                 (sort [posName directedGame ?a, posName directedGame ?b] ! 1))"
    by (simp add: table_get_def)
  with C5_distance_symmetry [of directedGame ?a ?b ?m 0]
  have 2: "distance directedGame ?m ?a ?b = distance directedGame ?m ?b ?a"
    by blast
  have "incomplete (fst (findShortestPath exampleGame ?a ?b noOptions))
         = incomplete (fst (findShortestPath exampleGame ?b ?a noOptions))
       \<and> length (path (fst (findShortestPath exampleGame ?a ?b noOptions)))
         = length (path (fst (findShortestPath exampleGame ?b ?a noOptions)))"
    unfolding findShortestPath_result
    by (simp add: findPath_search_def Let_def exampleGame_def)
  with C5_distance_symmetry [of exampleGame ?a ?b emptyMemory 0]
  have 3: "fst (distance exampleGame emptyMemory ?a ?b) = fst (distance exampleGame emptyMemory ?b ?a)"
    by blast
  have "fst (distance directedGame emptyMemory ?a ?b) = Some 3 \<and> (3::nat) \<noteq> 0"
    by (simp add: distance_miss_value directed_ab del: sort_key_simps)
  with C5_distance_symmetry [of directedGame ?a ?b emptyMemory 3]
  have 4: "fst (distance directedGame (fst (snd (distance directedGame emptyMemory ?a ?b))) ?b ?a)
             = Some 3"
    by blast
  from 1 2 3 4 show ?thesis by blast
qed

subsection \<open>Cost matrices\<close>

lemma store_set_last: "store_set (st @ [m]) (length st) xx yy v = st @ [bits_set m xx yy v]"
  by (simp add: store_set_def)

lemma store_get_last: "store_get (st @ [m]) (length st) xx yy = bits_get m xx yy"
  by (simp add: store_get_def)

lemma fold_last:
  assumes "\<And>a m. f a (st @ [m]) = st @ [h a m]"
  shows "fold f xs (st @ [m]) = st @ [fold h xs m]"
  by (induction xs arbitrary: m) (simp_all add: assms)

lemma fold_structure_step_last:
  "fold (default_structure_step (length st)) ss (st @ [m], imp)
     = (st @ [fold bits_structure_step ss m], imp @ filter isImpassible ss)"
  by (induction ss arbitrary: m imp)
     (simp_all add: default_structure_step_def bits_structure_step_def isImpassible_def
        store_set_last)

lemma fold_impassible_last:
  "fold (set_impassible (length st)) ss (st @ [m]) = st @ [fold bits_impassible ss m]"
  by (rule fold_last) (simp add: set_impassible_def bits_impassible_def store_set_last)

lemma fold_site_last:
  "fold (site_step (length st)) ss (st @ [m]) = st @ [fold bits_site ss m]"
  by (rule fold_last) (simp add: site_step_def bits_site_def store_set_last)

lemma fold_creep_last:
  "fold (creep_step (length st)) cs (st @ [m]) = st @ [fold bits_creep cs m]"
  by (rule fold_last) (simp add: creep_step_def bits_creep_def store_set_last)

lemma fold_direct_step: "fold direct_structure_step ss imp = imp @ filter (\<lambda>s. \<not> s_isWalkable s) ss"
  by (induction ss arbitrary: imp) (simp_all add: direct_structure_step_def)

lemma kiting_cell_last:
  "kiting_cell (length st) c dx dy (st @ [m]) = st @ [bits_kiting_cell c dx dy m]"
  by (simp add: kiting_cell_def bits_kiting_cell_def store_get_last store_set_last
        split: option.splits)

lemma kiting_creep_last:
  "kiting_creep (length st) c (st @ [m]) = st @ [bits_kiting_creep c m]"
  unfolding kiting_creep_def bits_kiting_creep_def
  by (rule fold_last, rule fold_last, rule kiting_cell_last)

lemma fold_kiting_last:
  "fold (kiting_creep (length st)) cs (st @ [m]) = st @ [fold bits_kiting_creep cs m]"
  by (rule fold_last) (rule kiting_creep_last)

lemma lair_step_last:
  "lair_step (length st) lair (st @ [m]) = st @ [bits_lair lair m]"
  unfolding lair_step_def bits_lair_def
  by (rule fold_last, rule fold_last) (simp add: lair_cell_def store_set_last)

lemma fold_lair_last:
  "fold (lair_step (length st)) ls (st @ [m]) = st @ [fold bits_lair ls m]"
  by (rule fold_last) (rule lair_step_last)

lemma fold_obstacle_last:
  "fold (obstacle_step room (length st)) obs (st @ [m])
     = st @ [fold (bits_obstacle (room_name room)) obs m]"
  by (rule fold_last)
     (simp add: obstacle_step_def bits_obstacle_def store_set_last split: option.splits)

lemma getDefaultMatrix_cached:
  "defaultMatrix_slot room = Some r \<Longrightarrow> getDefaultMatrix st room = (r, st, room)"
  by (simp add: getDefaultMatrix_def)

lemma getDefaultMatrix_build:
  "defaultMatrix_slot room = None \<Longrightarrow>
   getDefaultMatrix st room
     = (length st, st @ [defaultBits room], room\<lparr>defaultMatrix_slot := Some (length st)\<rparr>)"
  by (simp add: getDefaultMatrix_def Let_def store_new_def fold_structure_step_last
        fold_impassible_last fold_site_last defaultBits_def)

lemma getDirectMatrix_build:
  "directMatrix_slot room = None \<Longrightarrow>
   getDirectMatrix st room
     = (length st, st @ [directBits room], room\<lparr>directMatrix_slot := Some (length st)\<rparr>)"
  by (simp add: getDirectMatrix_def Let_def store_new_def fold_direct_step
        fold_impassible_last fold_site_last directBits_def)

lemma getCreepMatrix_build:
  "creepMatrix_slot room = None \<Longrightarrow>
   getCreepMatrix st room
     = (length (fst (snd (getDefaultMatrix st room))),
        fst (snd (getDefaultMatrix st room))
          @ [fold bits_creep (find_creeps room)
               (fst (snd (getDefaultMatrix st room)) ! fst (getDefaultMatrix st room))],
        (snd (snd (getDefaultMatrix st room)))\<lparr>creepMatrix_slot
           := Some (length (fst (snd (getDefaultMatrix st room))))\<rparr>)"
  by (cases "defaultMatrix_slot room")
     (simp_all add: getCreepMatrix_def Let_def store_clone_def fold_creep_last
        getDefaultMatrix_build getDefaultMatrix_cached)

lemma getKitingMatrix_build:
  "kitingMatrix_slot room = None \<Longrightarrow>
   getKitingMatrix st room
     = (length (fst (snd (getCreepMatrix st room))),
        fst (snd (getCreepMatrix st room))
          @ [fold bits_kiting_creep (filter isCombatant (hostiles room))
               (fst (snd (getCreepMatrix st room)) ! fst (getCreepMatrix st room))],
        (snd (snd (getCreepMatrix st room)))\<lparr>kitingMatrix_slot
           := Some (length (fst (snd (getCreepMatrix st room))))\<rparr>)"
  by (cases "creepMatrix_slot room"; cases "defaultMatrix_slot room")
     (simp_all add: getKitingMatrix_def Let_def store_clone_def fold_kiting_last
        getCreepMatrix_build getCreepMatrix_def getDefaultMatrix_build getDefaultMatrix_cached)

lemma clampByte_simps [simp]: "clampByte 255 = 255" "clampByte 1 = 1" "clampByte 254 = 254"
  by (simp_all add: clampByte_def)

lemma fold_bits_structure_step:
  "fold bits_structure_step ss m t
     = (if \<exists>s \<in> set ss. structureType s = STRUCTURE_ROAD \<and> inGrid (pos_x (s_pos s)) (pos_y (s_pos s))
             \<and> (pos_x (s_pos s), pos_y (s_pos s)) = t then 1 else m t)"
  by (induction ss arbitrary: m) (auto simp: bits_set_def bits_structure_step_def)

lemma fold_bits_impassible:
  "fold bits_impassible ss m t
     = (if \<exists>s \<in> set ss. inGrid (pos_x (s_pos s)) (pos_y (s_pos s))
             \<and> (pos_x (s_pos s), pos_y (s_pos s)) = t then 255 else m t)"
  by (induction ss arbitrary: m) (auto simp: bits_set_def bits_impassible_def)

lemma fold_bits_site:
  "fold bits_site ss m t
     = (if \<exists>s \<in> set ss. (site_my s \<and> \<not> site_isWalkable s)
             \<and> inGrid (pos_x (site_pos s)) (pos_y (site_pos s))
             \<and> (pos_x (site_pos s), pos_y (site_pos s)) = t then 255 else m t)"
  by (induction ss arbitrary: m) (auto simp: bits_set_def bits_site_def)

lemma fold_bits_creep:
  "fold bits_creep cs m t
     = (if \<exists>c \<in> set cs. inGrid (pos_x (c_pos c)) (pos_y (c_pos c))
             \<and> (pos_x (c_pos c), pos_y (c_pos c)) = t then 255 else m t)"
  by (induction cs arbitrary: m) (auto simp: bits_set_def bits_creep_def)

lemma defaultBits_tile:
  "inGrid xx yy \<Longrightarrow>
   defaultBits room (xx, yy)
     = (if impassibleAt room xx yy \<or> ownSiteAt room xx yy then 255
        else if roadAt room xx yy then 1 else 0)"
  unfolding defaultBits_def fold_bits_site fold_bits_impassible fold_bits_structure_step
  by (auto simp: impassibleAt_def ownSiteAt_def roadAt_def isImpassible_def bits_new_def)

lemma kiting_inner:
  "distinct dys \<Longrightarrow>
   fold (\<lambda>dy. bits_kiting_cell c dx dy) dys m (tx, ty)
     = (if tx = pos_x (c_pos c) + dx \<and> ty - pos_y (c_pos c) \<in> set dys \<and> inGrid tx ty
        then clampByte (int (m (tx, ty)) + (40 - 10 * max \<bar>dx\<bar> \<bar>ty - pos_y (c_pos c)\<bar>))
        else m (tx, ty))"
proof (induction dys arbitrary: m)
  case Nil
  then show ?case by simp
next
  case (Cons d ds)
  then have d: "d \<notin> set ds" "distinct ds" by simp_all
  show ?case
    by (simp add: Cons.IH [OF d(2)]) (use d(1) in \<open>auto simp: bits_kiting_cell_def bits_get_def bits_set_def\<close>)
qed

lemma kiting_outer:
  "distinct dxs \<Longrightarrow> distinct dys \<Longrightarrow>
   fold (\<lambda>dx. fold (\<lambda>dy. bits_kiting_cell c dx dy) dys) dxs m (tx, ty)
     = (if tx - pos_x (c_pos c) \<in> set dxs \<and> ty - pos_y (c_pos c) \<in> set dys \<and> inGrid tx ty
        then clampByte (int (m (tx, ty))
               + (40 - 10 * max \<bar>tx - pos_x (c_pos c)\<bar> \<bar>ty - pos_y (c_pos c)\<bar>))
        else m (tx, ty))"
proof (induction dxs arbitrary: m)
  case Nil
  then show ?case by simp
next
  case (Cons d ds)
  then have d: "d \<notin> set ds" "distinct ds" "distinct dys" by simp_all
  show ?case
    by (simp add: Cons.IH [OF d(2,3)] kiting_inner [OF d(3)]) (use d(1) in auto)
qed

lemma bits_kiting_creep_tile:
  "bits_kiting_creep c m (tx, ty)
     = (if \<bar>tx - pos_x (c_pos c)\<bar> \<le> 3 \<and> \<bar>ty - pos_y (c_pos c)\<bar> \<le> 3 \<and> inGrid tx ty
        then clampByte (int (m (tx, ty))
               + (40 - 10 * max \<bar>tx - pos_x (c_pos c)\<bar> \<bar>ty - pos_y (c_pos c)\<bar>))
        else m (tx, ty))"
  unfolding bits_kiting_creep_def
  by (subst kiting_outer) auto

lemma clampByte_add: "0 \<le> p \<Longrightarrow> clampByte (int a + p) = min 255 (a + nat p)"
  by (auto simp: clampByte_def min_def max_def nat_add_distrib)

lemma kitingPenalty_pos:
  "\<bar>xx - pos_x (c_pos c)\<bar> \<le> 3 \<Longrightarrow> \<bar>yy - pos_y (c_pos c)\<bar> \<le> 3 \<Longrightarrow> 0 < kitingPenalty c xx yy"
  by (simp add: kitingPenalty_def)

lemma bits_kiting_creep_penalty:
  "inGrid tx ty \<Longrightarrow>
   bits_kiting_creep c m (tx, ty)
     = (if kitingPenalty c tx ty = 0 then m (tx, ty)
        else min 255 (m (tx, ty) + kitingPenalty c tx ty))"
proof (cases "\<bar>tx - pos_x (c_pos c)\<bar> \<le> 3 \<and> \<bar>ty - pos_y (c_pos c)\<bar> \<le> 3")
  case True
  assume g: "inGrid tx ty"
  from True have p: "0 \<le> 40 - 10 * max \<bar>tx - pos_x (c_pos c)\<bar> \<bar>ty - pos_y (c_pos c)\<bar>"
    by simp
  from True have "0 < kitingPenalty c tx ty" by (simp add: kitingPenalty_pos)
  then show ?thesis
    using True g by (simp add: bits_kiting_creep_tile clampByte_add [OF p]) (simp add: kitingPenalty_def)
next
  case False
  then show ?thesis by (auto simp: bits_kiting_creep_tile kitingPenalty_def)
qed

lemma roomPenalty_simps [simp]:
  "roomPenalty [] xx yy = 0"
  "roomPenalty (c # cs) xx yy = kitingPenalty c xx yy + roomPenalty cs xx yy"
  by (simp_all add: roomPenalty_def)

lemma nth_append_two: "(st @ [a, b]) ! Suc (length st) = b"
  by (simp add: nth_append)

lemma fold_kiting_tile:
  "inGrid tx ty \<Longrightarrow>
   fold bits_kiting_creep cs m (tx, ty)
     = (if roomPenalty cs tx ty = 0 then m (tx, ty)
        else min 255 (m (tx, ty) + roomPenalty cs tx ty))"
proof (induction cs arbitrary: m)
  case Nil
  then show ?case by simp
next
  case (Cons c cs)
  show ?case
    using Cons.prems
    by (simp add: Cons.IH [OF Cons.prems] bits_kiting_creep_penalty) (simp add: min_def)
qed

lemma fold_kiting_outside:
  "\<not> inGrid tx ty \<Longrightarrow> fold bits_kiting_creep cs m (tx, ty) = m (tx, ty)"
  by (induction cs arbitrary: m) (simp_all add: bits_kiting_creep_tile)

lemma getKitingMatrix_tile:
  assumes "kitingMatrix_slot room = None" "inGrid xx yy"
  shows "(fst (snd (getKitingMatrix st room)) ! fst (getKitingMatrix st room)) (xx, yy)
     = (if roomPenalty (filter isCombatant (hostiles room)) xx yy = 0
        then (fst (snd (getCreepMatrix st room)) ! fst (getCreepMatrix st room)) (xx, yy)
        else min 255 ((fst (snd (getCreepMatrix st room)) ! fst (getCreepMatrix st room)) (xx, yy)
                      + roomPenalty (filter isCombatant (hostiles room)) xx yy))"
  by (simp add: getKitingMatrix_build [OF assms(1)] fold_kiting_tile [OF assms(2)])

lemma getDefaultMatrix_tile:
  assumes "defaultMatrix_slot room = None" "inGrid xx yy"
  shows "(fst (snd (getDefaultMatrix st room)) ! fst (getDefaultMatrix st room)) (xx, yy)
     = (if impassibleAt room xx yy \<or> ownSiteAt room xx yy then 255
        else if roadAt room xx yy then 1 else 0)"
  by (simp add: getDefaultMatrix_build [OF assms(1)] defaultBits_tile [OF assms(2)])

lemma getCreepMatrix_tile:
  assumes "creepMatrix_slot room = None" "defaultMatrix_slot room = None" "inGrid xx yy"
  shows "(fst (snd (getCreepMatrix st room)) ! fst (getCreepMatrix st room)) (xx, yy)
     = (if creepAt room xx yy \<or> impassibleAt room xx yy \<or> ownSiteAt room xx yy then 255
        else if roadAt room xx yy then 1 else 0)"
  using assms(3)
  by (simp add: getCreepMatrix_build [OF assms(1)] getDefaultMatrix_build [OF assms(2)]
        fold_bits_creep defaultBits_tile nth_append_two)
     (auto simp: creepAt_def)

lemma getCreepMatrix_byte:
  assumes "creepMatrix_slot room = None" "defaultMatrix_slot room = None" "inGrid xx yy"
  shows "(fst (snd (getCreepMatrix st room)) ! fst (getCreepMatrix st room)) (xx, yy) \<le> 255"
  by (simp add: getCreepMatrix_tile [OF assms])

lemma single_penalties:
  "kitingPenalty h (pos_x (c_pos h)) (pos_y (c_pos h)) = 40"
  "kitingPenalty h (pos_x (c_pos h) + 3) (pos_y (c_pos h) + 3) = 10"
  "kitingPenalty h (pos_x (c_pos h) + 4) (pos_y (c_pos h) + 4) = 0"
  by (simp_all add: kitingPenalty_def)

lemma inGrid_between:
  "inGrid xx yy \<Longrightarrow> inGrid (xx + 4) (yy + 4) \<Longrightarrow> inGrid (xx + 3) (yy + 3)"
  by (simp add: inGrid_def)

lemma getCreepMatrix_values:
  assumes "creepMatrix_slot room = None" "defaultMatrix_slot room = None" "inGrid xx yy"
  shows "(fst (snd (getCreepMatrix st room)) ! fst (getCreepMatrix st room)) (xx, yy) = 0
       \<or> (fst (snd (getCreepMatrix st room)) ! fst (getCreepMatrix st room)) (xx, yy) = 1
       \<or> (fst (snd (getCreepMatrix st room)) ! fst (getCreepMatrix st room)) (xx, yy) = 255"
  by (simp add: getCreepMatrix_tile [OF assms])

lemma kiting_single:
  assumes slot: "kitingMatrix_slot room = None"
    and single: "filter isCombatant (hostiles room) = [h]"
    and grid: "inGrid (pos_x (c_pos h)) (pos_y (c_pos h))"
      "inGrid (pos_x (c_pos h) + 4) (pos_y (c_pos h) + 4)"
  shows "(fst (snd (getKitingMatrix st room)) ! fst (getKitingMatrix st room))
           (pos_x (c_pos h), pos_y (c_pos h))
         = min 255 ((fst (snd (getCreepMatrix st room)) ! fst (getCreepMatrix st room))
                      (pos_x (c_pos h), pos_y (c_pos h)) + 40)"
    and "(fst (snd (getKitingMatrix st room)) ! fst (getKitingMatrix st room))
           (pos_x (c_pos h) + 3, pos_y (c_pos h) + 3)
         = min 255 ((fst (snd (getCreepMatrix st room)) ! fst (getCreepMatrix st room))
                      (pos_x (c_pos h) + 3, pos_y (c_pos h) + 3) + 10)"
    and "(fst (snd (getKitingMatrix st room)) ! fst (getKitingMatrix st room))
           (pos_x (c_pos h) + 4, pos_y (c_pos h) + 4)
         = (fst (snd (getCreepMatrix st room)) ! fst (getCreepMatrix st room))
             (pos_x (c_pos h) + 4, pos_y (c_pos h) + 4)"
  by (simp_all add: getKitingMatrix_tile [OF slot grid(1)] getKitingMatrix_tile [OF slot grid(2)]
        getKitingMatrix_tile [OF slot inGrid_between [OF grid]] single single_penalties)

lemma kiting_order:
  assumes slots: "kitingMatrix_slot room = None" "creepMatrix_slot room = None"
      "defaultMatrix_slot room = None"
    and single: "filter isCombatant (hostiles room) = [h]"
    and grid: "inGrid (pos_x (c_pos h)) (pos_y (c_pos h))"
      "inGrid (pos_x (c_pos h) + 4) (pos_y (c_pos h) + 4)"
  shows "((fst (snd (getKitingMatrix st room)) ! fst (getKitingMatrix st room))
                 (pos_x (c_pos h) + 3, pos_y (c_pos h) + 3)
               \<le> (fst (snd (getKitingMatrix st room)) ! fst (getKitingMatrix st room))
                 (pos_x (c_pos h), pos_y (c_pos h))
          \<and> (fst (snd (getKitingMatrix st room)) ! fst (getKitingMatrix st room))
                 (pos_x (c_pos h) + 4, pos_y (c_pos h) + 4)
               \<le> (fst (snd (getKitingMatrix st room)) ! fst (getKitingMatrix st room))
                 (pos_x (c_pos h) + 3, pos_y (c_pos h) + 3))
       = ((fst (snd (getCreepMatrix st room)) ! fst (getCreepMatrix st room))
                 (pos_x (c_pos h) + 3, pos_y (c_pos h) + 3)
               \<le> (fst (snd (getCreepMatrix st room)) ! fst (getCreepMatrix st room))
                 (pos_x (c_pos h), pos_y (c_pos h)) + 30
          \<and> (fst (snd (getCreepMatrix st room)) ! fst (getCreepMatrix st room))
                 (pos_x (c_pos h) + 4, pos_y (c_pos h) + 4)
               \<le> (fst (snd (getCreepMatrix st room)) ! fst (getCreepMatrix st room))
                 (pos_x (c_pos h) + 3, pos_y (c_pos h) + 3) + 10)"
proof -
  note v0 = getCreepMatrix_values [OF slots(2,3) grid(1), of st]
  note v3 = getCreepMatrix_values [OF slots(2,3) inGrid_between [OF grid], of st]
  note v4 = getCreepMatrix_values [OF slots(2,3) grid(2), of st]
  note k = kiting_single [OF slots(1) single grid, of st]
  show ?thesis
    unfolding k using v0 v3 v4 by auto
qed

lemma inGrid_numeral [simp]:
  "inGrid (numeral a) (numeral b) = (numeral a \<le> (49::int) \<and> numeral b \<le> (49::int))"
  by (simp add: inGrid_def)

lemma store_get_content: "inGrid xx yy \<Longrightarrow> store_get st r xx yy = Some ((st ! r) (xx, yy))"
  by (simp add: store_get_def bits_get_def)

text \<open>
  Claim C2, as the code has it. In the default matrix built for a room in vision, a tile
  of the grid with a non-walkable structure that is not a road (a constructed wall is
  one) or with an own non-walkable construction site has cost 255; a road tile with
  neither has cost 1; every other tile is left at 0. The terrain is no input of
  \<open>getDefaultMatrix\<close>: a tile of wall terrain is 0 (unset) like any other tile, and 1 when
  a road is on it.
\<close>

theorem C2_default_matrix_costs:
  "defaultMatrix_slot room = None \<and> inGrid xx yy \<longrightarrow>
   store_get (fst (snd (getDefaultMatrix st room))) (fst (getDefaultMatrix st room)) xx yy
     = Some (if impassibleAt room xx yy \<or> ownSiteAt room xx yy then 255
             else if roadAt room xx yy then 1 else 0)"
  by (simp add: store_get_content getDefaultMatrix_tile)

lemma exampleRoom_tiles:
  "impassibleAt exampleRoom 11 10" "\<not> impassibleAt exampleRoom 10 10" "\<not> impassibleAt exampleRoom 13 10"
  "\<not> impassibleAt exampleRoom 15 15" "ownSiteAt exampleRoom 13 10" "\<not> ownSiteAt exampleRoom 10 10"
  "\<not> ownSiteAt exampleRoom 15 15" "roadAt exampleRoom 10 10" "\<not> roadAt exampleRoom 15 15"
  by (simp_all add: impassibleAt_def ownSiteAt_def roadAt_def exampleRoom_def mkRoomPosition_def
        STRUCTURE_ROAD_def)

text \<open>Claim C2 at a room with a road, a constructed wall and a construction site.\<close>

theorem C2_witness:
  "store_get (fst (snd (getDefaultMatrix [] exampleRoom))) (fst (getDefaultMatrix [] exampleRoom)) 11 10
     = Some 255
   \<and> store_get (fst (snd (getDefaultMatrix [] exampleRoom))) (fst (getDefaultMatrix [] exampleRoom)) 13 10
     = Some 255
   \<and> store_get (fst (snd (getDefaultMatrix [] exampleRoom))) (fst (getDefaultMatrix [] exampleRoom)) 10 10
     = Some 1
   \<and> store_get (fst (snd (getDefaultMatrix [] exampleRoom))) (fst (getDefaultMatrix [] exampleRoom)) 15 15
     = Some 0"
proof -
  have s: "defaultMatrix_slot exampleRoom = None" by (simp add: exampleRoom_def)
  have g: "inGrid 11 10" "inGrid 13 10" "inGrid 10 10" "inGrid 15 15" by simp_all
  from C2_default_matrix_costs [of exampleRoom 11 10 "[]"] C2_default_matrix_costs [of exampleRoom 13 10 "[]"]
    C2_default_matrix_costs [of exampleRoom 10 10 "[]"] C2_default_matrix_costs [of exampleRoom 15 15 "[]"]
    s g
  show ?thesis by (simp add: exampleRoom_tiles)
qed

text \<open>
  Claim C2 as stated fails: in a room whose terrain is wall at (15,15) and at (10,10),
  the default matrix holds 0 at (15,15), not 255, and the road at (10,10) gets the finite
  cost 1.
\<close>

theorem C2_counterexample:
  "rooms wallGame ''W0N0'' = Some exampleRoom
   \<and> getTerrainAt wallGame 15 15 ''W0N0'' = wall
   \<and> store_get (fst (snd (getDefaultMatrix [] exampleRoom))) (fst (getDefaultMatrix [] exampleRoom)) 15 15
     = Some 0
   \<and> getTerrainAt wallGame 10 10 ''W0N0'' = wall
   \<and> store_get (fst (snd (getDefaultMatrix [] exampleRoom))) (fst (getDefaultMatrix [] exampleRoom)) 10 10
     = Some 1"
proof -
  have s: "defaultMatrix_slot exampleRoom = None" by (simp add: exampleRoom_def)
  show ?thesis
    by (simp add: store_get_content getDefaultMatrix_tile [OF s] exampleRoom_tiles wallGame_def
          terrainWalls_def)
qed

text \<open>
  Claim C6, as the code has it. \<open>getKitingMatrix\<close> passes the coordinates around a hostile
  unchecked, so the costs are stated for hostile combatants at least 3 rows from the top
  and the bottom edge of the region (rows 3..46), where every row index it passes is in
  range. There, a tile of the grid costs in the kiting matrix what it costs in the
  agent-avoiding matrix plus, for every hostile combatant within radius 3
  (\<open>max \<bar>dx\<bar> \<bar>dy\<bar> \<le> 3\<close>), the penalty \<open>40 - 10 * max \<bar>dx\<bar> \<bar>dy\<bar>\<close>, the sum clamped at
  255; a tile within radius 3 of no hostile combatant is unmodified. The penalty of one
  hostile is 40 at offset (0,0), 10 at (3,3) and 0 at (4,4). So for a single hostile
  combatant the kiting costs at these offsets are the agent-avoiding cost plus 40 clamped
  at 255, the agent-avoiding cost plus 10 clamped at 255, and the agent-avoiding cost
  itself; and, the matrices being freshly built, cost (0,0) \<ge> cost (3,3) \<ge> cost (4,4)
  holds exactly when the agent-avoiding cost at (3,3) is at most that at (0,0) plus 30 and
  the agent-avoiding cost at (4,4) is at most that at (3,3) plus 10.
\<close>

theorem C6_kiting_penalty:
  "(kitingMatrix_slot room = None \<and> inGrid xx yy
      \<and> (\<forall>c \<in> set (filter isCombatant (hostiles room)).
            3 \<le> pos_y (c_pos c) \<and> pos_y (c_pos c) \<le> 46) \<longrightarrow>
      store_get (fst (snd (getKitingMatrix st room))) (fst (getKitingMatrix st room)) xx yy
        = Some (if roomPenalty (filter isCombatant (hostiles room)) xx yy = 0
                then (fst (snd (getCreepMatrix st room)) ! fst (getCreepMatrix st room)) (xx, yy)
                else min 255
                  ((fst (snd (getCreepMatrix st room)) ! fst (getCreepMatrix st room)) (xx, yy)
                   + roomPenalty (filter isCombatant (hostiles room)) xx yy)))
   \<and> kitingPenalty h (pos_x (c_pos h)) (pos_y (c_pos h)) = 40
   \<and> kitingPenalty h (pos_x (c_pos h) + 3) (pos_y (c_pos h) + 3) = 10
   \<and> kitingPenalty h (pos_x (c_pos h) + 4) (pos_y (c_pos h) + 4) = 0
   \<and> (kitingMatrix_slot room = None \<and> filter isCombatant (hostiles room) = [h]
        \<and> inGrid (pos_x (c_pos h)) (pos_y (c_pos h))
        \<and> inGrid (pos_x (c_pos h) + 4) (pos_y (c_pos h) + 4)
        \<and> 3 \<le> pos_y (c_pos h) \<longrightarrow>
      (fst (snd (getKitingMatrix st room)) ! fst (getKitingMatrix st room))
           (pos_x (c_pos h), pos_y (c_pos h))
         = min 255 ((fst (snd (getCreepMatrix st room)) ! fst (getCreepMatrix st room))
                      (pos_x (c_pos h), pos_y (c_pos h)) + 40)
      \<and> (fst (snd (getKitingMatrix st room)) ! fst (getKitingMatrix st room))
           (pos_x (c_pos h) + 3, pos_y (c_pos h) + 3)
         = min 255 ((fst (snd (getCreepMatrix st room)) ! fst (getCreepMatrix st room))
                      (pos_x (c_pos h) + 3, pos_y (c_pos h) + 3) + 10)
      \<and> (fst (snd (getKitingMatrix st room)) ! fst (getKitingMatrix st room))
           (pos_x (c_pos h) + 4, pos_y (c_pos h) + 4)
         = (fst (snd (getCreepMatrix st room)) ! fst (getCreepMatrix st room))
             (pos_x (c_pos h) + 4, pos_y (c_pos h) + 4))
   \<and> (kitingMatrix_slot room = None \<and> creepMatrix_slot room = None
        \<and> defaultMatrix_slot room = None
        \<and> filter isCombatant (hostiles room) = [h]
        \<and> inGrid (pos_x (c_pos h)) (pos_y (c_pos h))
        \<and> inGrid (pos_x (c_pos h) + 4) (pos_y (c_pos h) + 4)
        \<and> 3 \<le> pos_y (c_pos h) \<longrightarrow>
      ((fst (snd (getKitingMatrix st room)) ! fst (getKitingMatrix st room))
                 (pos_x (c_pos h) + 3, pos_y (c_pos h) + 3)
               \<le> (fst (snd (getKitingMatrix st room)) ! fst (getKitingMatrix st room))
                 (pos_x (c_pos h), pos_y (c_pos h))
          \<and> (fst (snd (getKitingMatrix st room)) ! fst (getKitingMatrix st room))
                 (pos_x (c_pos h) + 4, pos_y (c_pos h) + 4)
               \<le> (fst (snd (getKitingMatrix st room)) ! fst (getKitingMatrix st room))
                 (pos_x (c_pos h) + 3, pos_y (c_pos h) + 3))
       = ((fst (snd (getCreepMatrix st room)) ! fst (getCreepMatrix st room))
                 (pos_x (c_pos h) + 3, pos_y (c_pos h) + 3)
               \<le> (fst (snd (getCreepMatrix st room)) ! fst (getCreepMatrix st room))
                 (pos_x (c_pos h), pos_y (c_pos h)) + 30
          \<and> (fst (snd (getCreepMatrix st room)) ! fst (getCreepMatrix st room))
                 (pos_x (c_pos h) + 4, pos_y (c_pos h) + 4)
               \<le> (fst (snd (getCreepMatrix st room)) ! fst (getCreepMatrix st room))
                 (pos_x (c_pos h) + 3, pos_y (c_pos h) + 3) + 10))"
proof -
  have general: "store_get (fst (snd (getKitingMatrix st room))) (fst (getKitingMatrix st room)) xx yy
        = Some (if roomPenalty (filter isCombatant (hostiles room)) xx yy = 0
                then (fst (snd (getCreepMatrix st room)) ! fst (getCreepMatrix st room)) (xx, yy)
                else min 255
                  ((fst (snd (getCreepMatrix st room)) ! fst (getCreepMatrix st room)) (xx, yy)
                   + roomPenalty (filter isCombatant (hostiles room)) xx yy))"
    if "kitingMatrix_slot room = None \<and> inGrid xx yy"
    using that by (simp add: store_get_content getKitingMatrix_tile)
  note single = kiting_single [of room h st]
  note order = kiting_order [of room h st]
  note pens = single_penalties [of h]
  from general single order pens show ?thesis by blast
qed

lemma exampleRoom_slots:
  "kitingMatrix_slot exampleRoom = None" "creepMatrix_slot exampleRoom = None"
  "defaultMatrix_slot exampleRoom = None"
  "kitingMatrix_slot openRoom = None" "creepMatrix_slot openRoom = None"
  "defaultMatrix_slot openRoom = None"
  by (simp_all add: exampleRoom_def openRoom_def)

lemma example_combatants:
  "filter isCombatant (hostiles exampleRoom) = [exampleHostile]"
  "filter isCombatant (hostiles openRoom) = [exampleHostile]"
  "c_pos exampleHostile = mkRoomPosition 20 20 ''W0N0''"
  by (simp_all add: exampleRoom_def openRoom_def exampleHostile_def isCombatant_def)

lemma example_base:
  "(fst (snd (getCreepMatrix [] exampleRoom)) ! fst (getCreepMatrix [] exampleRoom)) (20, 20) = 255"
  "(fst (snd (getCreepMatrix [] exampleRoom)) ! fst (getCreepMatrix [] exampleRoom)) (23, 23) = 0"
  "(fst (snd (getCreepMatrix [] exampleRoom)) ! fst (getCreepMatrix [] exampleRoom)) (24, 24) = 255"
  "(fst (snd (getCreepMatrix [] openRoom)) ! fst (getCreepMatrix [] openRoom)) (20, 20) = 255"
  "(fst (snd (getCreepMatrix [] openRoom)) ! fst (getCreepMatrix [] openRoom)) (23, 23) = 0"
  "(fst (snd (getCreepMatrix [] openRoom)) ! fst (getCreepMatrix [] openRoom)) (24, 24) = 0"
  by (simp_all add: getCreepMatrix_tile exampleRoom_slots)
     (simp_all add: creepAt_def impassibleAt_def ownSiteAt_def roadAt_def exampleRoom_def openRoom_def
        exampleHostile_def mkRoomPosition_def STRUCTURE_ROAD_def)

lemma example_penalties:
  "kitingPenalty exampleHostile 20 20 = 40" "kitingPenalty exampleHostile 23 23 = 10"
  "kitingPenalty exampleHostile 24 24 = 0"
  by (simp_all add: kitingPenalty_def exampleHostile_def mkRoomPosition_def)

text \<open>
  Claim C6 as stated fails: with one hostile at (20,20) and an extension at (24,24), the
  kiting cost at offset (3,3) is 10 and at offset (4,4) it is 255; and at offset (0,0),
  where the agent-avoiding matrix holds 255 for the hostile itself, the cost is not
  increased by 40.
\<close>

theorem C6_counterexample:
  "filter isCombatant (hostiles exampleRoom) = [exampleHostile]
   \<and> c_pos exampleHostile = mkRoomPosition 20 20 ''W0N0''
   \<and> store_get (fst (snd (getKitingMatrix [] exampleRoom))) (fst (getKitingMatrix [] exampleRoom)) 23 23
       = Some 10
   \<and> store_get (fst (snd (getKitingMatrix [] exampleRoom))) (fst (getKitingMatrix [] exampleRoom)) 24 24
       = Some 255
   \<and> store_get (fst (snd (getCreepMatrix [] exampleRoom))) (fst (getCreepMatrix [] exampleRoom)) 20 20
       = Some 255
   \<and> store_get (fst (snd (getKitingMatrix [] exampleRoom))) (fst (getKitingMatrix [] exampleRoom)) 20 20
       = Some 255"
  by (simp add: store_get_content getKitingMatrix_tile exampleRoom_slots example_combatants
        example_base example_penalties)

text \<open>
  Claim C6 at a room with one hostile on open ground at (20,20), rows 3..46: the tile
  (22,21) costs 20, the hostile's own tile 255, offset (3,3) costs 10 and offset (4,4)
  costs 0, in decreasing order.
\<close>

theorem C6_witness:
  "store_get (fst (snd (getKitingMatrix [] openRoom))) (fst (getKitingMatrix [] openRoom)) 22 21
     = Some 20
   \<and> (fst (snd (getKitingMatrix [] openRoom)) ! fst (getKitingMatrix [] openRoom)) (20, 20) = 255
   \<and> (fst (snd (getKitingMatrix [] openRoom)) ! fst (getKitingMatrix [] openRoom)) (23, 23) = 10
   \<and> (fst (snd (getKitingMatrix [] openRoom)) ! fst (getKitingMatrix [] openRoom)) (24, 24) = 0
   \<and> (fst (snd (getKitingMatrix [] openRoom)) ! fst (getKitingMatrix [] openRoom)) (23, 23)
       \<le> (fst (snd (getKitingMatrix [] openRoom)) ! fst (getKitingMatrix [] openRoom)) (20, 20)
   \<and> (fst (snd (getKitingMatrix [] openRoom)) ! fst (getKitingMatrix [] openRoom)) (24, 24)
       \<le> (fst (snd (getKitingMatrix [] openRoom)) ! fst (getKitingMatrix [] openRoom)) (23, 23)"
proof -
  note claim = C6_kiting_penalty [of openRoom 22 21 "[]" exampleHostile]
  have b: "(fst (snd (getCreepMatrix [] openRoom)) ! fst (getCreepMatrix [] openRoom)) (22, 21) = 0"
    by (simp add: getCreepMatrix_tile exampleRoom_slots)
       (simp add: creepAt_def impassibleAt_def ownSiteAt_def roadAt_def exampleRoom_def openRoom_def
        exampleHostile_def mkRoomPosition_def)
  have p: "roomPenalty (filter isCombatant (hostiles openRoom)) 22 21 = 20"
    by (simp add: example_combatants) (simp add: kitingPenalty_def exampleHostile_def mkRoomPosition_def)
  have "kitingMatrix_slot openRoom = None \<and> inGrid 22 21
      \<and> (\<forall>c \<in> set (filter isCombatant (hostiles openRoom)).
            3 \<le> pos_y (c_pos c) \<and> pos_y (c_pos c) \<le> 46)"
    by (simp add: exampleRoom_slots example_combatants mkRoomPosition_def)
  with claim
  have "store_get (fst (snd (getKitingMatrix [] openRoom))) (fst (getKitingMatrix [] openRoom)) 22 21
        = Some (if roomPenalty (filter isCombatant (hostiles openRoom)) 22 21 = 0
                then (fst (snd (getCreepMatrix [] openRoom)) ! fst (getCreepMatrix [] openRoom)) (22, 21)
                else min 255
                  ((fst (snd (getCreepMatrix [] openRoom)) ! fst (getCreepMatrix [] openRoom)) (22, 21)
                   + roomPenalty (filter isCombatant (hostiles openRoom)) 22 21))"
    by blast
  then have 1: "store_get (fst (snd (getKitingMatrix [] openRoom))) (fst (getKitingMatrix [] openRoom)) 22 21
     = Some 20"
    by (simp add: b p)
  have h: "kitingMatrix_slot openRoom = None \<and> creepMatrix_slot openRoom = None
        \<and> defaultMatrix_slot openRoom = None
        \<and> filter isCombatant (hostiles openRoom) = [exampleHostile]
        \<and> inGrid (pos_x (c_pos exampleHostile)) (pos_y (c_pos exampleHostile))
        \<and> inGrid (pos_x (c_pos exampleHostile) + 4) (pos_y (c_pos exampleHostile) + 4)
        \<and> 3 \<le> pos_y (c_pos exampleHostile)"
    by (simp add: exampleRoom_slots example_combatants mkRoomPosition_def)
  from claim h
  have 2: "(fst (snd (getKitingMatrix [] openRoom)) ! fst (getKitingMatrix [] openRoom))
           (pos_x (c_pos exampleHostile), pos_y (c_pos exampleHostile))
         = min 255 ((fst (snd (getCreepMatrix [] openRoom)) ! fst (getCreepMatrix [] openRoom))
                      (pos_x (c_pos exampleHostile), pos_y (c_pos exampleHostile)) + 40)
      \<and> (fst (snd (getKitingMatrix [] openRoom)) ! fst (getKitingMatrix [] openRoom))
           (pos_x (c_pos exampleHostile) + 3, pos_y (c_pos exampleHostile) + 3)
         = min 255 ((fst (snd (getCreepMatrix [] openRoom)) ! fst (getCreepMatrix [] openRoom))
                      (pos_x (c_pos exampleHostile) + 3, pos_y (c_pos exampleHostile) + 3) + 10)
      \<and> (fst (snd (getKitingMatrix [] openRoom)) ! fst (getKitingMatrix [] openRoom))
           (pos_x (c_pos exampleHostile) + 4, pos_y (c_pos exampleHostile) + 4)
         = (fst (snd (getCreepMatrix [] openRoom)) ! fst (getCreepMatrix [] openRoom))
             (pos_x (c_pos exampleHostile) + 4, pos_y (c_pos exampleHostile) + 4)"
    by blast
  from claim h
  have 3: "((fst (snd (getKitingMatrix [] openRoom)) ! fst (getKitingMatrix [] openRoom))
                 (pos_x (c_pos exampleHostile) + 3, pos_y (c_pos exampleHostile) + 3)
               \<le> (fst (snd (getKitingMatrix [] openRoom)) ! fst (getKitingMatrix [] openRoom))
                 (pos_x (c_pos exampleHostile), pos_y (c_pos exampleHostile))
          \<and> (fst (snd (getKitingMatrix [] openRoom)) ! fst (getKitingMatrix [] openRoom))
                 (pos_x (c_pos exampleHostile) + 4, pos_y (c_pos exampleHostile) + 4)
               \<le> (fst (snd (getKitingMatrix [] openRoom)) ! fst (getKitingMatrix [] openRoom))
                 (pos_x (c_pos exampleHostile) + 3, pos_y (c_pos exampleHostile) + 3))
       = ((fst (snd (getCreepMatrix [] openRoom)) ! fst (getCreepMatrix [] openRoom))
                 (pos_x (c_pos exampleHostile) + 3, pos_y (c_pos exampleHostile) + 3)
               \<le> (fst (snd (getCreepMatrix [] openRoom)) ! fst (getCreepMatrix [] openRoom))
                 (pos_x (c_pos exampleHostile), pos_y (c_pos exampleHostile)) + 30
          \<and> (fst (snd (getCreepMatrix [] openRoom)) ! fst (getCreepMatrix [] openRoom))
                 (pos_x (c_pos exampleHostile) + 4, pos_y (c_pos exampleHostile) + 4)
               \<le> (fst (snd (getCreepMatrix [] openRoom)) ! fst (getCreepMatrix [] openRoom))
                 (pos_x (c_pos exampleHostile) + 3, pos_y (c_pos exampleHostile) + 3) + 10)"
    by blast
  have 4: "(fst (snd (getKitingMatrix [] openRoom)) ! fst (getKitingMatrix [] openRoom)) (20, 20) = 255
   \<and> (fst (snd (getKitingMatrix [] openRoom)) ! fst (getKitingMatrix [] openRoom)) (23, 23) = 10
   \<and> (fst (snd (getKitingMatrix [] openRoom)) ! fst (getKitingMatrix [] openRoom)) (24, 24) = 0"
    using 2 by (simp add: example_combatants mkRoomPosition_def example_base)
  have 5: "(fst (snd (getKitingMatrix [] openRoom)) ! fst (getKitingMatrix [] openRoom)) (23, 23)
       \<le> (fst (snd (getKitingMatrix [] openRoom)) ! fst (getKitingMatrix [] openRoom)) (20, 20)
   \<and> (fst (snd (getKitingMatrix [] openRoom)) ! fst (getKitingMatrix [] openRoom)) (24, 24)
       \<le> (fst (snd (getKitingMatrix [] openRoom)) ! fst (getKitingMatrix [] openRoom)) (23, 23)"
    using 3 by (simp add: example_combatants mkRoomPosition_def example_base)
  from 1 4 5 show ?thesis by blast
qed

lemma slotOk_append: "slotOk st s \<Longrightarrow> slotOk (st @ ext) s"
  by (auto simp: slotOk_def split: option.splits)

lemma wfRoom_append: "wfRoom st room \<Longrightarrow> wfRoom (st @ ext) room"
  by (simp add: wfRoom_def slotOk_append)

lemma slotOk_simps [simp]: "slotOk st None" "slotOk st (Some r) = (r < length st)"
  by (simp_all add: slotOk_def)

lemma getDefaultMatrix_cachedGetter: "wfRoom st room \<Longrightarrow> cachedGetter getDefaultMatrix st room"
proof (cases "defaultMatrix_slot room")
  case None
  assume "wfRoom st room"
  then have "wfRoom (st @ [defaultBits room]) room" by (rule wfRoom_append)
  then show ?thesis
    by (simp add: cachedGetter_def getDefaultMatrix_build [OF None] getDefaultMatrix_cached
          wfRoom_def)
next
  case (Some r)
  assume "wfRoom st room"
  then show ?thesis
    using Some by (simp add: cachedGetter_def getDefaultMatrix_cached wfRoom_def)
qed

lemma getDirectMatrix_cached:
  "directMatrix_slot room = Some r \<Longrightarrow> getDirectMatrix st room = (r, st, room)"
  by (simp add: getDirectMatrix_def)

lemma getDirectMatrix_cachedGetter: "wfRoom st room \<Longrightarrow> cachedGetter getDirectMatrix st room"
proof (cases "directMatrix_slot room")
  case None
  assume "wfRoom st room"
  then have "wfRoom (st @ [directBits room]) room" by (rule wfRoom_append)
  then show ?thesis
    by (simp add: cachedGetter_def getDirectMatrix_build [OF None] getDirectMatrix_cached
          wfRoom_def)
next
  case (Some r)
  assume "wfRoom st room"
  then show ?thesis
    using Some by (simp add: cachedGetter_def getDirectMatrix_cached wfRoom_def)
qed

lemma getCreepMatrix_cached:
  "creepMatrix_slot room = Some r \<Longrightarrow> getCreepMatrix st room = (r, st, room)"
  by (simp add: getCreepMatrix_def)

lemma getCreepMatrix_cachedGetter:
  assumes wf: "wfRoom st room"
  shows "cachedGetter getCreepMatrix st room"
proof (cases "creepMatrix_slot room")
  case None
  let ?d = "getDefaultMatrix st room"
  from getDefaultMatrix_cachedGetter [OF wf]
  obtain ext where e: "fst (snd ?d) = st @ ext"
    and w: "wfRoom (fst (snd ?d)) (snd (snd ?d))"
    and n: "room_name (snd (snd ?d)) = room_name room"
    unfolding cachedGetter_def by blast
  from w have w2: "wfRoom (fst (snd ?d) @ [x]) (snd (snd ?d))" for x
    by (rule wfRoom_append)
  show ?thesis
    using w2 n e
    by (simp add: cachedGetter_def getCreepMatrix_build [OF None] getCreepMatrix_cached wfRoom_def)
next
  case (Some r)
  then show ?thesis
    using wf by (simp add: cachedGetter_def getCreepMatrix_cached wfRoom_def)
qed

lemma getSkMatrix_cachedGetter:
  assumes wf: "wfRoom st room"
  shows "cachedGetter (getSkMatrix g) st room"
proof (cases "roomType g (room_name room) \<noteq> ROOMTYPE_SOURCEKEEPER")
  case True
  from getDefaultMatrix_cachedGetter [OF wf] True
  show ?thesis
    by (simp add: cachedGetter_def getSkMatrix_def)
next
  case sk: False
  show ?thesis
  proof (cases "skMatrix_slot room")
    case None
    let ?d = "getDefaultMatrix st room"
    from getDefaultMatrix_cachedGetter [OF wf]
    obtain ext where e: "fst (snd ?d) = st @ ext"
      and w: "wfRoom (fst (snd ?d)) (snd (snd ?d))"
      and n: "room_name (snd (snd ?d)) = room_name room"
      unfolding cachedGetter_def by blast
    from w have w2: "wfRoom (fst (snd ?d) @ [x]) (snd (snd ?d))" for x
      by (rule wfRoom_append)
    have s: "skMatrix_slot (snd (snd ?d)) = None"
      using None by (cases "defaultMatrix_slot room")
        (simp_all add: getDefaultMatrix_build getDefaultMatrix_cached)
    show ?thesis
      using w2 n e sk None
      by (simp add: cachedGetter_def getSkMatrix_def Let_def store_clone_def fold_lair_last
            wfRoom_def)
  next
    case (Some r)
    then show ?thesis
      using wf sk by (simp add: cachedGetter_def getSkMatrix_def wfRoom_def)
  qed
qed

lemma cachedGetter_stable:
  assumes c: "cachedGetter G st room"
    and v: "\<And>st room. getCostMatrix_variant g st room options = G st room"
  shows "stableVariant g options st room"
proof -
  let ?r = "fst (G st room)" and ?st = "fst (snd (G st room))" and ?room = "snd (snd (G st room))"
  from c have r: "?r < length ?st" and again: "\<And>st2. G st2 ?room = (?r, st2, ?room)"
    unfolding cachedGetter_def by blast+
  from r have "(?st @ ext) ! ?r = ?st ! ?r" for ext
    by (simp add: nth_append)
  with c r again show ?thesis
    unfolding stableVariant_def v cachedGetter_def by simp
qed

lemma getCostMatrix_variant_stable:
  assumes wf: "wfRoom st room"
  shows "stableVariant g options st room"
proof -
  consider (creep) "ignoreCreeps options = Some False"
    | (sk) "ignoreCreeps options \<noteq> Some False" "truthy (avoidSK options)"
    | (fresh) "ignoreCreeps options \<noteq> Some False" "\<not> truthy (avoidSK options)"
        "truthy (ignoreStructures options)"
    | (direct) "ignoreCreeps options \<noteq> Some False" "\<not> truthy (avoidSK options)"
        "\<not> truthy (ignoreStructures options)" "truthy (direct options)"
    | (default) "ignoreCreeps options \<noteq> Some False" "\<not> truthy (avoidSK options)"
        "\<not> truthy (ignoreStructures options)" "\<not> truthy (direct options)"
    by blast
  then show ?thesis
  proof cases
    case creep
    then show ?thesis
      by (intro cachedGetter_stable [OF getCreepMatrix_cachedGetter [OF wf]])
         (simp add: getCostMatrix_variant_def)
  next
    case sk
    then show ?thesis
      by (intro cachedGetter_stable [OF getSkMatrix_cachedGetter [OF wf]])
         (simp add: getCostMatrix_variant_def)
  next
    case fresh
    then have v: "getCostMatrix_variant g s r options = (length s, s @ [bits_new], r)" for s r
      by (simp add: getCostMatrix_variant_def store_new_def)
    from wf have "wfRoom (st @ [bits_new]) room" by (rule wfRoom_append)
    then show ?thesis
      unfolding stableVariant_def v by (simp add: nth_append)
  next
    case direct
    then show ?thesis
      by (intro cachedGetter_stable [OF getDirectMatrix_cachedGetter [OF wf]])
         (simp add: getCostMatrix_variant_def)
  next
    case default
    then show ?thesis
      by (intro cachedGetter_stable [OF getDefaultMatrix_cachedGetter [OF wf]])
         (simp add: getCostMatrix_variant_def)
  qed
qed

lemma getCostMatrix_variant_obstacles [simp]:
  "getCostMatrix_variant g st room (options\<lparr>obstacles := obs\<rparr>)
     = getCostMatrix_variant g st room options"
  by (simp add: getCostMatrix_variant_def)

lemma getCostMatrix_room:
  "snd (snd (getCostMatrix g st room options clone))
     = snd (snd (getCostMatrix_variant g st room options))"
  by (simp add: getCostMatrix_def Let_def)

lemma getCostMatrix_store:
  "\<exists>ext. fst (snd (getCostMatrix g st room options clone))
           = fst (snd (getCostMatrix_variant g st room options)) @ ext"
  by (simp add: getCostMatrix_def Let_def store_clone_def fold_obstacle_last)

lemma getCostMatrix_content:
  assumes "fst (getCostMatrix_variant g st room options)
             < length (fst (snd (getCostMatrix_variant g st room options)))"
  shows "fst (snd (getCostMatrix g st room options clone)) ! fst (getCostMatrix g st room options clone)
     = fold (bits_obstacle (room_name (snd (snd (getCostMatrix_variant g st room options)))))
         (obstacles options)
         (fst (snd (getCostMatrix_variant g st room options))
            ! fst (getCostMatrix_variant g st room options))"
  using assms
  by (cases "obstacles options = []")
     (simp_all add: getCostMatrix_def Let_def store_clone_def fold_obstacle_last nth_append
        nth_append_two)

lemma getCostMatrix_ref:
  assumes "fst (getCostMatrix_variant g st room options)
             < length (fst (snd (getCostMatrix_variant g st room options)))"
  shows "fst (getCostMatrix g st room options clone)
           < length (fst (snd (getCostMatrix g st room options clone)))"
    and "obstacles options \<noteq> [] \<or> clone \<Longrightarrow>
         length (fst (snd (getCostMatrix_variant g st room options)))
           \<le> fst (getCostMatrix g st room options clone)"
    and "obstacles options = [] \<and> \<not> clone \<Longrightarrow>
         fst (getCostMatrix g st room options clone) = fst (getCostMatrix_variant g st room options)"
  using assms
  by (auto simp: getCostMatrix_def Let_def store_clone_def fold_obstacle_last)

lemma fold_bits_obstacle_hit:
  "Some ob \<in> set obs \<Longrightarrow> pos_roomName ob = rn \<Longrightarrow> inGrid (pos_x ob) (pos_y ob) \<Longrightarrow>
   fold (bits_obstacle rn) obs m (pos_x ob, pos_y ob) = 255"
proof (induction obs arbitrary: m)
  case Nil
  then show ?case by simp
next
  case (Cons a obs)
  have keep: "m' t = 255 \<Longrightarrow> fold (bits_obstacle rn) os m' t = 255" for os m' t
    by (induction os arbitrary: m') (auto simp: bits_obstacle_def bits_set_def split: option.splits)
  show ?case
  proof (cases "a = Some ob")
    case True
    have "bits_obstacle rn (Some ob) m (pos_x ob, pos_y ob) = 255"
      using Cons.prems by (simp add: bits_obstacle_def bits_set_def)
    then show ?thesis using True by (simp add: keep)
  next
    case False
    with Cons show ?thesis by simp
  qed
qed

lemma fold_bits_obstacle_miss:
  "\<forall>ob. Some ob \<in> set obs \<longrightarrow> (pos_x ob, pos_y ob) \<noteq> t \<Longrightarrow>
   fold (bits_obstacle rn) obs m t = m t"
  by (induction obs arbitrary: m) (auto simp: bits_obstacle_def bits_set_def split: option.splits)

lemma purity_chain:
  fixes g :: Game and options :: MoveOptions and obs1 obs2 :: "RoomPosition option list"
    and clone1 clone2 clone3 :: bool
  assumes wf: "wfRoom st room"
  defines "b \<equiv> getCostMatrix_variant g st room options"
    and "c1 \<equiv> getCostMatrix g st room (options\<lparr>obstacles := obs1\<rparr>) clone1"
  defines "c2 \<equiv> getCostMatrix g (fst (snd c1)) (snd (snd c1)) (options\<lparr>obstacles := obs2\<rparr>) clone2"
  defines "c3 \<equiv> getCostMatrix g (fst (snd c2)) (snd (snd c2)) (options\<lparr>obstacles := []\<rparr>) clone3"
  shows "fst (snd c3) ! fst c3 = fst (snd b) ! fst b
    \<and> fst (snd c1) ! fst b = fst (snd b) ! fst b
    \<and> fst (snd c2) ! fst b = fst (snd b) ! fst b
    \<and> fst (snd c3) ! fst b = fst (snd b) ! fst b
    \<and> (\<forall>i < length st. fst (snd c3) ! i = st ! i)
    \<and> fst (snd c1) ! fst c1 = fold (bits_obstacle (room_name room)) obs1 (fst (snd b) ! fst b)
    \<and> (obs1 \<noteq> [] \<longrightarrow> fst c1 \<noteq> fst b)"
proof -
  let ?stb = "fst (snd b)" and ?rb = "fst b" and ?roomb = "snd (snd b)"
  have sv: "stableVariant g options st room"
    by (rule getCostMatrix_variant_stable [OF wf])
  from sv obtain ext0 where e0: "?stb = st @ ext0"
    unfolding stableVariant_def b_def by blast
  from sv have rb: "?rb < length ?stb" and nm: "room_name ?roomb = room_name room"
    unfolding stableVariant_def b_def by blast+
  have again: "(\<exists>ext2. fst (snd (getCostMatrix_variant g (?stb @ ext) ?roomb options))
                     = ?stb @ ext @ ext2)
            \<and> fst (getCostMatrix_variant g (?stb @ ext) ?roomb options)
                < length (fst (snd (getCostMatrix_variant g (?stb @ ext) ?roomb options)))
            \<and> fst (snd (getCostMatrix_variant g (?stb @ ext) ?roomb options))
                ! fst (getCostMatrix_variant g (?stb @ ext) ?roomb options) = ?stb ! ?rb
            \<and> snd (snd (getCostMatrix_variant g (?stb @ ext) ?roomb options)) = ?roomb" for ext
    using sv unfolding stableVariant_def b_def by blast
  \<comment> \<open>the first call\<close>
  have room1: "snd (snd c1) = ?roomb"
    unfolding c1_def b_def by (simp add: getCostMatrix_room)
  obtain e1 where st1: "fst (snd c1) = ?stb @ e1"
    using getCostMatrix_store [of g st room "options\<lparr>obstacles := obs1\<rparr>" clone1]
    unfolding c1_def b_def by auto
  have content1: "fst (snd c1) ! fst c1
                    = fold (bits_obstacle (room_name room)) obs1 (?stb ! ?rb)"
    using getCostMatrix_content [of g st room "options\<lparr>obstacles := obs1\<rparr>" clone1] rb nm
    unfolding c1_def b_def by simp
  have fresh1: "obs1 \<noteq> [] \<longrightarrow> fst c1 \<noteq> ?rb"
    using getCostMatrix_ref(2) [of g st room "options\<lparr>obstacles := obs1\<rparr>" clone1] rb
    unfolding c1_def b_def by auto
  \<comment> \<open>the second call\<close>
  let ?b2 = "getCostMatrix_variant g (?stb @ e1) ?roomb options"
  from again [of e1] obtain e2 where st2v: "fst (snd ?b2) = ?stb @ e1 @ e2"
    and room2v: "snd (snd ?b2) = ?roomb"
    by blast
  have room2: "snd (snd c2) = ?roomb"
    unfolding c2_def room1 st1 by (simp add: getCostMatrix_room room2v)
  obtain e3 where st2: "fst (snd c2) = ?stb @ e1 @ e2 @ e3"
    using getCostMatrix_store [of g "?stb @ e1" ?roomb "options\<lparr>obstacles := obs2\<rparr>" clone2]
    unfolding c2_def room1 st1 by (auto simp: st2v)
  \<comment> \<open>the third call\<close>
  let ?b3 = "getCostMatrix_variant g (?stb @ e1 @ e2 @ e3) ?roomb options"
  from again [of "e1 @ e2 @ e3"] obtain e4 where st3v: "fst (snd ?b3) = ?stb @ (e1 @ e2 @ e3) @ e4"
    and r3v: "fst ?b3 < length (fst (snd ?b3))"
    and content3v: "fst (snd ?b3) ! fst ?b3 = ?stb ! ?rb"
    by auto
  have content3: "fst (snd c3) ! fst c3 = ?stb ! ?rb"
    using getCostMatrix_content [of g "?stb @ e1 @ e2 @ e3" ?roomb "options\<lparr>obstacles := []\<rparr>" clone3]
      r3v content3v
    unfolding c3_def room2 st2 by simp
  obtain e5 where st3: "fst (snd c3) = ?stb @ (e1 @ e2 @ e3) @ e4 @ e5"
    using getCostMatrix_store [of g "?stb @ e1 @ e2 @ e3" ?roomb "options\<lparr>obstacles := []\<rparr>" clone3]
    unfolding c3_def room2 st2 by (auto simp: st3v)
  have k1: "fst (snd c1) ! ?rb = ?stb ! ?rb" using rb by (simp add: st1 nth_append)
  have k2: "fst (snd c2) ! ?rb = ?stb ! ?rb" using rb by (simp add: st2 nth_append)
  have k3: "fst (snd c3) ! ?rb = ?stb ! ?rb" using rb by (simp add: st3 nth_append)
  have old: "\<forall>i < length st. fst (snd c3) ! i = st ! i" by (simp add: st3 e0 nth_append)
  from content3 k1 k2 k3 old content1 fresh1 show ?thesis by blast
qed

text \<open>
  Claim C8. Let \<open>getCostMatrix\<close> be called with obstacles, again with other obstacles, and
  then with none, each call in the state the one before left, from a well-formed state.
  The matrix the third call returns has the contents of the variant's unmodified base
  matrix; the canonical object of the variant (the cached one) has the same contents
  after every call; no matrix that existed before is changed; the first call returns the
  base with exactly its obstacles written, 255 at each obstacle tile of the room, on an
  object that is not the canonical one.
\<close>

theorem C8_cache_purity:
  "wfRoom st room \<Longrightarrow>
   (let b = getCostMatrix_variant g st room options;
        c1 = getCostMatrix g st room (options\<lparr>obstacles := obs1\<rparr>) clone1;
        c2 = getCostMatrix g (fst (snd c1)) (snd (snd c1)) (options\<lparr>obstacles := obs2\<rparr>) clone2;
        c3 = getCostMatrix g (fst (snd c2)) (snd (snd c2)) (options\<lparr>obstacles := []\<rparr>) clone3
    in fst (snd c3) ! fst c3 = fst (snd b) ! fst b
       \<and> fst (snd c1) ! fst b = fst (snd b) ! fst b
       \<and> fst (snd c2) ! fst b = fst (snd b) ! fst b
       \<and> fst (snd c3) ! fst b = fst (snd b) ! fst b
       \<and> (\<forall>i < length st. fst (snd c3) ! i = st ! i)
       \<and> fst (snd c1) ! fst c1 = fold (bits_obstacle (room_name room)) obs1 (fst (snd b) ! fst b)
       \<and> (obs1 \<noteq> [] \<longrightarrow> fst c1 \<noteq> fst b)
       \<and> (\<forall>ob. Some ob \<in> set obs1 \<and> pos_roomName ob = room_name room
              \<and> inGrid (pos_x ob) (pos_y ob) \<longrightarrow>
            (fst (snd c1) ! fst c1) (pos_x ob, pos_y ob) = 255))"
proof -
  assume wf: "wfRoom st room"
  note pc = purity_chain [OF wf, where g = g and options = options and ?obs1.0 = obs1
      and ?obs2.0 = obs2 and ?clone1.0 = clone1 and ?clone2.0 = clone2 and ?clone3.0 = clone3]
  show ?thesis
    unfolding Let_def using pc by (simp add: fold_bits_obstacle_hit)
qed

text \<open>Claim C8 at the example room: two calls with one obstacle each, then a call with none.\<close>

theorem C8_witness:
  "wfRoom [] exampleRoom
   \<and> (fst (snd purityCall1) ! fst purityCall1) (12, 12) = 255
   \<and> (fst (snd purityCall3) ! fst purityCall3) (12, 12) = 0
   \<and> (fst (snd purityCall3) ! fst purityCall3) (14, 14) = 0
   \<and> (fst (snd purityCall3) ! fst purityCall3) (11, 10) = 255
   \<and> (fst (snd purityCall3) ! fst purityCall3) (10, 10) = 1"
proof -
  have wf: "wfRoom [] exampleRoom"
    by (simp add: wfRoom_def exampleRoom_def)
  have v: "getCostMatrix_variant exampleGame [] exampleRoom noOptions = getDefaultMatrix [] exampleRoom"
    by (simp add: getCostMatrix_variant_def noOptions_def)
  have s: "defaultMatrix_slot exampleRoom = None" by (simp add: exampleRoom_def)
  have t: "\<not> impassibleAt exampleRoom 12 12" "\<not> ownSiteAt exampleRoom 12 12" "\<not> roadAt exampleRoom 12 12"
    "\<not> impassibleAt exampleRoom 14 14" "\<not> ownSiteAt exampleRoom 14 14" "\<not> roadAt exampleRoom 14 14"
    by (simp_all add: impassibleAt_def ownSiteAt_def roadAt_def exampleRoom_def mkRoomPosition_def
        STRUCTURE_ROAD_def)
  note c = C8_cache_purity [OF wf, of exampleGame noOptions "[Some (mkRoomPosition 12 12 ''W0N0'')]" True
      "[Some (mkRoomPosition 14 14 ''W0N0''), None]" False False, unfolded Let_def,
      folded purityCall1_def, folded purityCall2_def, folded purityCall3_def]
  from c have 3: "fst (snd purityCall3) ! fst purityCall3
          = fst (snd (getDefaultMatrix [] exampleRoom)) ! fst (getDefaultMatrix [] exampleRoom)"
    unfolding v by blast
  have "Some (mkRoomPosition 12 12 ''W0N0'') \<in> set [Some (mkRoomPosition 12 12 ''W0N0'')]
        \<and> pos_roomName (mkRoomPosition 12 12 ''W0N0'') = room_name exampleRoom
        \<and> inGrid (pos_x (mkRoomPosition 12 12 ''W0N0'')) (pos_y (mkRoomPosition 12 12 ''W0N0''))"
    by (simp add: mkRoomPosition_def exampleRoom_def)
  with c have "(fst (snd purityCall1) ! fst purityCall1)
          (pos_x (mkRoomPosition 12 12 ''W0N0''), pos_y (mkRoomPosition 12 12 ''W0N0'')) = 255"
    by blast
  then have 1: "(fst (snd purityCall1) ! fst purityCall1) (12, 12) = 255"
    by (simp add: mkRoomPosition_def)
  show ?thesis
    using wf 1 by (simp add: 3 getDefaultMatrix_tile [OF s] exampleRoom_tiles t)
qed

end
